theory Spec2Isabelle
  imports Complex_Main
begin

section \<open>Python values handled by \<^verbatim>\<open>bilibili_api/user.py\<close>\<close>

text \<open>
  The module passes decoded JSON around without looking at its shape, so a payload is
  any JSON value.  A Python \<^verbatim>\<open>dict\<close> keeps insertion order and is modelled as an
  association list read with \<open>map_of\<close>; JSON numbers are integers here (no claim
  depends on a float).  Strings are byte lists.
\<close>

datatype json =
    JNull
  | JBool bool
  | JInt int
  | JStr string
  | JList "json list"
  | JObj "(string \<times> json) list"

text \<open>
  Every exception the module can raise or let through.  The three credential errors and
  \<open>ResponseCodeException\<close> (remote status code and message) come from the
  \<^verbatim>\<open>exceptions\<close> module; \<open>NetworkException\<close> stands for any other failure
  of the transport; the rest are Python's own.
\<close>

datatype error =
    CredentialNoSessdataException
  | CredentialNoBiliJctException
  | CredentialNoDedeUserIDException
  | ResponseCodeException int string
  | NetworkException string
  | JSONDecodeError
  | KeyError string
  | TypeError
  | AssertionError

definition err_bind :: "error + 'a \<Rightarrow> ('a \<Rightarrow> error + 'b) \<Rightarrow> error + 'b" where
  "err_bind r f = (case r of Inl e \<Rightarrow> Inl e | Inr x \<Rightarrow> f x)"

text \<open>\<^verbatim>\<open>x[k]\<close> for a string key: only a dict can be read that way.\<close>

fun subscript :: "json \<Rightarrow> string \<Rightarrow> error + json" where
  "subscript (JObj kvs) k = (case map_of kvs k of None \<Rightarrow> Inl (KeyError k) | Some v \<Rightarrow> Inr v)"
| "subscript _ k = Inl TypeError"

text \<open>\<^verbatim>\<open>d[k] = v\<close> on a dict: an existing key keeps its place, a new one goes last.\<close>

fun dict_update :: "string \<Rightarrow> json \<Rightarrow> (string \<times> json) list \<Rightarrow> (string \<times> json) list" where
  "dict_update k v [] = [(k, v)]"
| "dict_update k v (p # ps) = (if fst p = k then (k, v) # ps else p # dict_update k v ps)"

fun setitem :: "json \<Rightarrow> string \<Rightarrow> json \<Rightarrow> error + json" where
  "setitem (JObj kvs) k v = Inr (JObj (dict_update k v kvs))"
| "setitem _ k v = Inl TypeError"

fun is_substring :: "string \<Rightarrow> string \<Rightarrow> bool" where
  "is_substring k [] = (k = [])"
| "is_substring k (c # s) = (take (length k) (c # s) = k \<or> is_substring k s)"

text \<open>\<^verbatim>\<open>k in x\<close> for a string \<open>k\<close>: key of a dict, element of a list, substring of a
  string; the other values are not containers.\<close>

fun contains :: "json \<Rightarrow> string \<Rightarrow> error + bool" where
  "contains (JObj kvs) k = Inr (map_of kvs k \<noteq> None)"
| "contains (JList xs) k = Inr (List.member xs (JStr k))"
| "contains (JStr s) k = Inr (is_substring k s)"
| "contains _ k = Inl TypeError"

text \<open>\<^verbatim>\<open>for x in v\<close>: the elements of a list, the keys of a dict, the characters of a
  string.\<close>

fun iter :: "json \<Rightarrow> error + json list" where
  "iter (JList xs) = Inr xs"
| "iter (JObj kvs) = Inr (map (\<lambda>p. JStr (fst p)) kvs)"
| "iter (JStr s) = Inr (map (\<lambda>c. JStr [c]) s)"
| "iter _ = Inl TypeError"

text \<open>The integer an arithmetic operator sees (\<^verbatim>\<open>bool\<close> is a subclass of
  \<^verbatim>\<open>int\<close>).\<close>

fun int_of :: "json \<Rightarrow> error + int" where
  "int_of (JInt n) = Inr n"
| "int_of (JBool b) = Inr (if b then 1 else 0)"
| "int_of _ = Inl TypeError"

text \<open>\<^verbatim>\<open>v == n\<close> for an integer literal \<open>n\<close>.\<close>

fun eq_int :: "json \<Rightarrow> int \<Rightarrow> bool" where
  "eq_int (JInt m) n = (m = n)"
| "eq_int (JBool b) n = ((if b then 1 else 0) = n)"
| "eq_int _ n = False"

text \<open>\<^verbatim>\<open>sep.join(xs)\<close>.\<close>

fun join :: "string \<Rightarrow> string list \<Rightarrow> string" where
  "join sep [] = []"
| "join sep [x] = x"
| "join sep (x # y # ys) = x @ sep @ join sep (y # ys)"

section \<open>Credential\<close>

record credential =
  sessdata :: "string option"
  bili_jct :: "string option"
  buvid3 :: "string option"
  dedeuserid :: "string option"

text \<open>\<^verbatim>\<open>Credential()\<close>: the credential with no token.\<close>

definition Credential :: credential where
  "Credential = \<lparr>sessdata = None, bili_jct = None, buvid3 = None, dedeuserid = None\<rparr>"

text \<open>
  Modelled from the spec: the presence checks of class \<^verbatim>\<open>Credential\<close>
  (\<^verbatim>\<open>utils/Credential.py\<close>, not among the sources).  The spec: the credential is
  consumed as an object exposing "has session token", "has cross-site token",
  "has user-id token", each raising a typed precondition error when false.
\<close>

definition raise_for_no_sessdata :: "credential \<Rightarrow> error + unit" where
  "raise_for_no_sessdata c =
     (if sessdata c = None then Inl CredentialNoSessdataException else Inr ())"

definition raise_for_no_bili_jct :: "credential \<Rightarrow> error + unit" where
  "raise_for_no_bili_jct c =
     (if bili_jct c = None then Inl CredentialNoBiliJctException else Inr ())"

definition raise_for_no_dedeuserid :: "credential \<Rightarrow> error + unit" where
  "raise_for_no_dedeuserid c =
     (if dedeuserid c = None then Inl CredentialNoDedeUserIDException else Inr ())"

text \<open>\<^verbatim>\<open>credential if credential else Credential()\<close>, and the \<^verbatim>\<open>is None\<close> tests.\<close>

definition credential_or_default :: "credential option \<Rightarrow> credential" where
  "credential_or_default c = (case c of None \<Rightarrow> Credential | Some x \<Rightarrow> x)"

section \<open>The outside world: request gateway, plain HTTP fetch, clock\<close>

text \<open>One call of \<^verbatim>\<open>request(method, url, params, data, credential)\<close>.\<close>

record gateway_call =
  gc_method :: string
  gc_url :: string
  gc_params :: "(string \<times> json) list option"
  gc_data :: "(string \<times> json) list option"
  gc_credential :: "credential option"

text \<open>
  What a run does to the outside, in order: a call of the request gateway, a plain
  \<^verbatim>\<open>httpx.get(url, params)\<close> (it carries no credential), or a
  \<^verbatim>\<open>time.sleep\<close> (in milliseconds).
\<close>

datatype event =
    Gateway gateway_call
  | HttpxGet string "(string \<times> json) list"
  | Sleep nat

text \<open>
  The collaborators the module imports, as parameters: the endpoint registry
  (\<open>get_api name section operation\<close> is the entry's url), the gateway's answer to a
  call and the answer to a plain fetch (each may depend on everything done before),
  \<^verbatim>\<open>json.loads\<close> (\<open>None\<close> is a decode error), \<^verbatim>\<open>str\<close> on a payload value and
  on an exception, and \<^verbatim>\<open>utils.join\<close>.
\<close>

record env =
  get_api :: "string \<Rightarrow> string \<Rightarrow> string \<Rightarrow> string"
  gateway :: "event list \<Rightarrow> gateway_call \<Rightarrow> error + json"
  httpx_get :: "event list \<Rightarrow> string \<Rightarrow> (string \<times> json) list \<Rightarrow> error + string"
  json_loads :: "string \<Rightarrow> json option"
  py_str :: "json \<Rightarrow> string"
  exc_str :: "error \<Rightarrow> string"
  utils_join :: "string \<Rightarrow> json list \<Rightarrow> string"

text \<open>\<^verbatim>\<open>API = get_api("user")\<close>.\<close>

definition API :: "env \<Rightarrow> string \<Rightarrow> string \<Rightarrow> string" where
  "API e = get_api e ''user''"

text \<open>A computation takes the events so far and returns its result, or the exception
  it raised, with the events extended.\<close>

type_synonym 'a io = "event list \<Rightarrow> (error + 'a) \<times> event list"

definition io_return :: "'a \<Rightarrow> 'a io" where
  "io_return x w = (Inr x, w)"

definition io_lift :: "error + 'a \<Rightarrow> 'a io" where
  "io_lift r w = (r, w)"

definition io_bind :: "'a io \<Rightarrow> ('a \<Rightarrow> 'b io) \<Rightarrow> 'b io" where
  "io_bind m f w = (case m w of (Inl e, w') \<Rightarrow> (Inl e, w') | (Inr x, w') \<Rightarrow> f x w')"

definition request ::
  "env \<Rightarrow> string \<Rightarrow> string \<Rightarrow> (string \<times> json) list option \<Rightarrow> (string \<times> json) list option
     \<Rightarrow> credential option \<Rightarrow> json io" where
  "request e m u p d c w =
     (let call = \<lparr>gc_method = m, gc_url = u, gc_params = p, gc_data = d, gc_credential = c\<rparr>
      in (gateway e w call, w @ [Gateway call]))"

definition httpx_get_text :: "env \<Rightarrow> string \<Rightarrow> (string \<times> json) list \<Rightarrow> string io" where
  "httpx_get_text e u p w = (httpx_get e w u p, w @ [HttpxGet u p])"

definition time_sleep :: "nat \<Rightarrow> unit io" where
  "time_sleep ms w = (Inr (), w @ [Sleep ms])"

text \<open>\<^verbatim>\<open>json.loads(x)\<close>: a value that is not a string is a \<^verbatim>\<open>TypeError\<close>.\<close>

fun loads :: "env \<Rightarrow> json \<Rightarrow> error + json" where
  "loads e (JStr s) = (case json_loads e s of None \<Rightarrow> Inl JSONDecodeError | Some v \<Rightarrow> Inr v)"
| "loads e _ = Inl TypeError"

text \<open>The gateway calls among the events, in order.\<close>

fun gateway_calls :: "event list \<Rightarrow> gateway_call list" where
  "gateway_calls [] = []"
| "gateway_calls (Gateway c # es) = c # gateway_calls es"
| "gateway_calls (_ # es) = gateway_calls es"

section \<open>Enumerations\<close>

datatype ChannelOrder = DEFAULT | CHANGE

fun ChannelOrder_value :: "ChannelOrder \<Rightarrow> json" where
  "ChannelOrder_value DEFAULT = JStr ''false''"
| "ChannelOrder_value CHANGE = JStr ''true''"

datatype RelationType =
  SUBSCRIBE | UNSUBSCRIBE | SUBSCRIBE_SECRETLY | BLOCK | UNBLOCK | REMOVE_FANS

fun RelationType_value :: "RelationType \<Rightarrow> json" where
  "RelationType_value SUBSCRIBE = JInt 1"
| "RelationType_value UNSUBSCRIBE = JInt 2"
| "RelationType_value SUBSCRIBE_SECRETLY = JInt 3"
| "RelationType_value BLOCK = JInt 5"
| "RelationType_value UNBLOCK = JInt 6"
| "RelationType_value REMOVE_FANS = JInt 7"

datatype ChannelSeriesType = SERIES | SEASON

fun ChannelSeriesType_value :: "ChannelSeriesType \<Rightarrow> int" where
  "ChannelSeriesType_value SERIES = 0"
| "ChannelSeriesType_value SEASON = 1"

section \<open>Class \<^verbatim>\<open>User\<close>\<close>

record user =
  user_uid :: json
  user_credential :: credential
  user_self_info :: "json option"

text \<open>\<^verbatim>\<open>User.__init__\<close>: a missing credential becomes the empty one.\<close>

definition User :: "json \<Rightarrow> credential option \<Rightarrow> user" where
  "User uid c =
     \<lparr>user_uid = uid, user_credential = credential_or_default c, user_self_info = None\<rparr>"

definition get_self_info :: "env \<Rightarrow> credential \<Rightarrow> json io" where
  "get_self_info e c =
     (let url = API e ''info'' ''my_info'' in
      io_bind (io_lift (raise_for_no_sessdata c)) (\<lambda>_.
      request e ''GET'' url None None (Some c)))"

definition set_space_notice :: "env \<Rightarrow> user \<Rightarrow> string \<Rightarrow> json io" where
  "set_space_notice e self content =
     io_bind (io_lift (raise_for_no_sessdata (user_credential self))) (\<lambda>_.
     io_bind (io_lift (raise_for_no_bili_jct (user_credential self))) (\<lambda>_.
     request e ''POST'' (API e ''operate'' ''set_space_notice'') None
       (Some [(''notice'', JStr content)]) (Some (user_credential self))))"

definition get_user_medal :: "env \<Rightarrow> user \<Rightarrow> json io" where
  "get_user_medal e self =
     io_bind (io_lift (raise_for_no_sessdata (user_credential self))) (\<lambda>_.
     request e ''GET'' (API e ''info'' ''user_medal'')
       (Some [(''target_id'', user_uid self)]) None (Some (user_credential self)))"

definition modify_relation :: "env \<Rightarrow> user \<Rightarrow> RelationType \<Rightarrow> json io" where
  "modify_relation e self relation =
     io_bind (io_lift (raise_for_no_sessdata (user_credential self))) (\<lambda>_.
     io_bind (io_lift (raise_for_no_bili_jct (user_credential self))) (\<lambda>_.
     request e ''POST'' (API e ''operate'' ''modify'') None
       (Some [(''fid'', user_uid self), (''act'', RelationType_value relation),
              (''re_src'', JInt 11)])
       (Some (user_credential self))))"

text \<open>\<^verbatim>\<open>User.get_dynamics\<close>.  The loop rewrites every item of
  \<^verbatim>\<open>data["cards"]\<close> in place; the model rebuilds the list and stores it back under
  its key (decoded JSON shares no object, so the two agree).\<close>

definition convert_card :: "env \<Rightarrow> json \<Rightarrow> error + json" where
  "convert_card e item =
     err_bind (subscript item ''card'') (\<lambda>c.
     err_bind (loads e c) (\<lambda>v.
     err_bind (setitem item ''card'' v) (\<lambda>item1.
     err_bind (subscript item1 ''extend_json'') (\<lambda>x.
     err_bind (loads e x) (\<lambda>v2.
     setitem item1 ''extend_json'' v2)))))"

fun convert_cards :: "env \<Rightarrow> json list \<Rightarrow> error + json list" where
  "convert_cards e [] = Inr []"
| "convert_cards e (item # items) =
     err_bind (convert_card e item) (\<lambda>item'.
     err_bind (convert_cards e items) (\<lambda>items'.
     Inr (item' # items')))"

fun store_cards :: "json \<Rightarrow> json \<Rightarrow> json list \<Rightarrow> error + json" where
  "store_cards data (JList old) new = setitem data ''cards'' (JList new)"
| "store_cards data _ new = Inr data"

definition get_dynamics :: "env \<Rightarrow> user \<Rightarrow> int \<Rightarrow> bool \<Rightarrow> json io" where
  "get_dynamics e self offset need_top =
     io_bind (request e ''GET'' (API e ''info'' ''dynamic'')
       (Some [(''host_uid'', user_uid self), (''offset_dynamic_id'', JInt offset),
              (''need_top'', JInt (if need_top then 1 else 0))])
       None (Some (user_credential self))) (\<lambda>data.
     io_lift
       (err_bind (contains data ''cards'') (\<lambda>has.
        if has then
          err_bind (subscript data ''cards'') (\<lambda>cards.
          err_bind (iter cards) (\<lambda>items.
          err_bind (convert_cards e items) (\<lambda>items'.
          store_cards data cards items')))
        else Inr data)))"

definition get_channel_videos_series :: "env \<Rightarrow> user \<Rightarrow> int \<Rightarrow> int \<Rightarrow> int \<Rightarrow> json io" where
  "get_channel_videos_series e self sid pn ps =
     request e ''GET'' (API e ''info'' ''channel_video_series'')
       (Some [(''mid'', user_uid self), (''series_id'', JInt sid), (''pn'', JInt pn),
              (''ps'', JInt ps)])
       None (Some (user_credential self))"

definition get_channel_videos_season ::
  "env \<Rightarrow> user \<Rightarrow> int \<Rightarrow> ChannelOrder \<Rightarrow> int \<Rightarrow> int \<Rightarrow> json io" where
  "get_channel_videos_season e self sid sort' pn ps =
     request e ''GET'' (API e ''info'' ''channel_video_season'')
       (Some [(''mid'', user_uid self), (''season_id'', JInt sid),
              (''sort_reverse'', ChannelOrder_value sort'), (''page_num'', JInt pn),
              (''page_size'', JInt ps)])
       None (Some (user_credential self))"

definition get_channel_list :: "env \<Rightarrow> user \<Rightarrow> json io" where
  "get_channel_list e self =
     (let url = API e ''info'' ''channel_list'';
          param = [(''mid'', user_uid self), (''page_num'', JInt 1), (''page_size'', JInt 1)]
      in
      io_bind (request e ''GET'' url (Some param) None (Some (user_credential self))) (\<lambda>res.
      io_bind (io_lift (subscript res ''items_lists'')) (\<lambda>lists.
      io_bind (io_lift (subscript lists ''page'')) (\<lambda>page.
      io_bind (io_lift (subscript page ''total'')) (\<lambda>total.
      io_bind (time_sleep 500) (\<lambda>_.
      let items = (if eq_int total 0 then JInt 1 else total);
          param' = dict_update ''page_size'' items param
      in request e ''GET'' url (Some param') None (Some (user_credential self))))))))"

section \<open>Class \<^verbatim>\<open>ChannelSeries\<close>\<close>

record channel_series =
  cs_uid :: json
  cs_is_new :: int
  cs_id :: int
  cs_owner :: user
  cs_credential :: "credential option"
  cs_meta :: json

text \<open>
  \<^verbatim>\<open>ChannelSeries.__init__(uid, type_, id_, credential, meta)\<close>.  A variant of
  \<open>None\<close> and a metadata snapshot of \<open>None\<close> are the Python \<^verbatim>\<open>None\<close>.  Without a
  snapshot the constructor fetches one with \<^verbatim>\<open>httpx.get\<close> and takes the owner from
  it.
\<close>

definition ChannelSeries ::
  "env \<Rightarrow> int \<Rightarrow> ChannelSeriesType option \<Rightarrow> int \<Rightarrow> credential option \<Rightarrow> json option
     \<Rightarrow> channel_series io" where
  "ChannelSeries e uid type' id' credential meta =
     (if id' = - 1 then io_lift (Inl AssertionError)
      else case type' of
        None \<Rightarrow> io_lift (Inl AssertionError)
      | Some t \<Rightarrow>
          (let is_new = ChannelSeriesType_value t;
               self = \<lparr>cs_uid = JInt uid, cs_is_new = is_new, cs_id = id',
                       cs_owner = User (JInt uid) credential, cs_credential = credential,
                       cs_meta = JNull\<rparr>
           in case meta of
             Some m \<Rightarrow> io_return (self\<lparr>cs_meta := m\<rparr>)
           | None \<Rightarrow>
               (let url = (if is_new \<noteq> 0 then API e ''channel_series'' ''season_info''
                           else API e ''channel_series'' ''info'');
                    params = (if is_new \<noteq> 0 then [(''season_id'', JInt id')]
                              else [(''series_id'', JInt id')])
                in
                io_bind (httpx_get_text e url params) (\<lambda>text.
                io_bind (io_lift (loads e (JStr text))) (\<lambda>body.
                io_bind (io_lift (subscript body ''data'')) (\<lambda>resp.
                if is_new \<noteq> 0 then
                  io_bind (io_lift (subscript resp ''info'')) (\<lambda>meta0.
                  io_bind (io_lift (subscript resp ''upper'')) (\<lambda>upper.
                  io_bind (io_lift (subscript upper ''mid'')) (\<lambda>mid.
                  io_bind (io_lift (setitem meta0 ''mid'' mid)) (\<lambda>meta1.
                  io_bind (io_lift (subscript meta1 ''mid'')) (\<lambda>uid'.
                  io_return (self\<lparr>cs_meta := meta1, cs_uid := uid',
                                   cs_owner := User uid' credential\<rparr>))))))
                else
                  io_bind (io_lift (subscript resp ''meta'')) (\<lambda>meta0.
                  io_bind (io_lift (subscript meta0 ''mid'')) (\<lambda>uid'.
                  io_return (self\<lparr>cs_meta := meta0, cs_uid := uid',
                                   cs_owner := User uid' credential\<rparr>)))))))))"

definition get_meta :: "channel_series \<Rightarrow> json" where
  "get_meta self = cs_meta self"

definition get_videos :: "env \<Rightarrow> channel_series \<Rightarrow> ChannelOrder \<Rightarrow> int \<Rightarrow> int \<Rightarrow> json io" where
  "get_videos e self sort' pn ps =
     (if cs_is_new self \<noteq> 0
      then get_channel_videos_season e (cs_owner self) (cs_id self) sort' pn ps
      else get_channel_videos_series e (cs_owner self) (cs_id self) pn ps)"

section \<open>Module-level functions\<close>

text \<open>\<^verbatim>\<open>for aid in page_info["aids"]: aids.append(aid)\<close>.\<close>

fun append_all :: "json list \<Rightarrow> json list \<Rightarrow> json list" where
  "append_all aids [] = aids"
| "append_all aids (aid # rest) = append_all (aids @ [aid]) rest"

text \<open>The page loop of \<^verbatim>\<open>del_channel_series\<close>, over the pages still to fetch.\<close>

fun walk_pages ::
  "env \<Rightarrow> json \<Rightarrow> credential \<Rightarrow> int \<Rightarrow> int list \<Rightarrow> json list \<Rightarrow> json list io" where
  "walk_pages e self_uid c series_id [] aids = io_return aids"
| "walk_pages e self_uid c series_id (page # pages) aids =
     io_bind (get_channel_videos_series e (User self_uid (Some c)) series_id page 20)
       (\<lambda>page_info.
     io_bind (io_lift (subscript page_info ''aids'')) (\<lambda>v.
     io_bind (io_lift (iter v)) (\<lambda>xs.
     walk_pages e self_uid c series_id pages (append_all aids xs))))"

definition del_channel_series :: "env \<Rightarrow> int \<Rightarrow> credential \<Rightarrow> json io" where
  "del_channel_series e series_id c =
     io_bind (io_lift (raise_for_no_sessdata c)) (\<lambda>_.
     io_bind (io_lift (raise_for_no_bili_jct c)) (\<lambda>_.
     io_bind (ChannelSeries e (- 1) (Some SERIES) series_id (Some c) None) (\<lambda>cs.
     io_bind (io_lift (subscript (get_meta cs) ''total'')) (\<lambda>series_total.
     io_bind (get_self_info e c) (\<lambda>info.
     io_bind (io_lift (subscript info ''mid'')) (\<lambda>self_uid.
     io_bind (io_lift (int_of series_total)) (\<lambda>total.
     let pages = total div 20 + (if total mod 20 \<noteq> 0 then 1 else 0) in
     io_bind (walk_pages e self_uid c series_id [1..pages] []) (\<lambda>aids.
     request e ''POST'' (API e ''channel_series'' ''del_channel_series'') None
       (Some [(''mid'', self_uid), (''series_id'', JInt series_id),
              (''aids'', JStr (join '','' (map (py_str e) aids)))])
       (Some c)))))))))"

definition create_channel_series ::
  "env \<Rightarrow> string \<Rightarrow> int list \<Rightarrow> string list \<Rightarrow> string \<Rightarrow> credential option \<Rightarrow> json io" where
  "create_channel_series e name aids keywords description credential =
     (let c = credential_or_default credential in
      io_bind (io_lift (raise_for_no_sessdata c)) (\<lambda>_.
      io_bind (io_lift (raise_for_no_bili_jct c)) (\<lambda>_.
      io_bind (get_self_info e c) (\<lambda>info.
      io_bind (io_lift (subscript info ''mid'')) (\<lambda>mid.
      request e ''POST'' (API e ''channel_series'' ''create'') None
        (Some [(''mid'', mid),
               (''aids'', JStr (join '','' (map (\<lambda>x. py_str e (JInt x)) aids))),
               (''name'', JStr name), (''keywords'', JStr (join '','' keywords)),
               (''description'', JStr description)])
        (Some c))))))"

definition add_aids_to_series :: "env \<Rightarrow> int \<Rightarrow> int list \<Rightarrow> credential \<Rightarrow> json io" where
  "add_aids_to_series e series_id aids c =
     io_bind (io_lift (raise_for_no_sessdata c)) (\<lambda>_.
     io_bind (io_lift (raise_for_no_bili_jct c)) (\<lambda>_.
     io_bind (get_self_info e c) (\<lambda>self_info.
     io_bind (io_lift (subscript self_info ''mid'')) (\<lambda>mid.
     request e ''POST'' (API e ''channel_series'' ''add_channel_aids_series'') None
       (Some [(''mid'', mid), (''series_id'', JInt series_id),
              (''aids'', JStr (join '','' (map (\<lambda>x. py_str e (JInt x)) aids)))])
       (Some c)))))"

definition del_aids_from_series :: "env \<Rightarrow> int \<Rightarrow> int list \<Rightarrow> credential \<Rightarrow> json io" where
  "del_aids_from_series e series_id aids c =
     io_bind (io_lift (raise_for_no_sessdata c)) (\<lambda>_.
     io_bind (io_lift (raise_for_no_bili_jct c)) (\<lambda>_.
     io_bind (get_self_info e c) (\<lambda>self_info.
     io_bind (io_lift (subscript self_info ''mid'')) (\<lambda>mid.
     request e ''POST'' (API e ''channel_series'' ''del_channel_aids_series'') None
       (Some [(''mid'', mid), (''series_id'', JInt series_id),
              (''aids'', JStr (join '','' (map (\<lambda>x. py_str e (JInt x)) aids)))])
       (Some c)))))"

definition edit_self_info ::
  "env \<Rightarrow> string \<Rightarrow> string \<Rightarrow> string \<Rightarrow> string \<Rightarrow> credential \<Rightarrow> json io" where
  "edit_self_info e birthday sex uname usersign c =
     io_bind (io_lift (raise_for_no_sessdata c)) (\<lambda>_.
     io_bind (io_lift (raise_for_no_bili_jct c)) (\<lambda>_.
     request e ''POST'' (API e ''info'' ''edit_my_info'') None
       (Some [(''birthday'', JStr birthday), (''sex'', JStr sex), (''uname'', JStr uname),
              (''usersign'', JStr usersign)])
       (Some c)))"

definition create_subscribe_group :: "env \<Rightarrow> string \<Rightarrow> credential \<Rightarrow> json io" where
  "create_subscribe_group e name c =
     io_bind (io_lift (raise_for_no_sessdata c)) (\<lambda>_.
     io_bind (io_lift (raise_for_no_bili_jct c)) (\<lambda>_.
     request e ''POST'' (API e ''operate'' ''create_subscribe_group'') None
       (Some [(''tag'', JStr name)]) (Some c)))"

definition delete_subscribe_group :: "env \<Rightarrow> int \<Rightarrow> credential \<Rightarrow> json io" where
  "delete_subscribe_group e group_id c =
     io_bind (io_lift (raise_for_no_sessdata c)) (\<lambda>_.
     io_bind (io_lift (raise_for_no_bili_jct c)) (\<lambda>_.
     request e ''POST'' (API e ''operate'' ''del_subscribe_group'') None
       (Some [(''tagid'', JInt group_id)]) (Some c)))"

definition rename_subscribe_group :: "env \<Rightarrow> int \<Rightarrow> string \<Rightarrow> credential \<Rightarrow> json io" where
  "rename_subscribe_group e group_id new_name c =
     io_bind (io_lift (raise_for_no_sessdata c)) (\<lambda>_.
     io_bind (io_lift (raise_for_no_bili_jct c)) (\<lambda>_.
     request e ''POST'' (API e ''operate'' ''rename_subscribe_group'') None
       (Some [(''tagid'', JInt group_id), (''name'', JStr new_name)]) (Some c)))"

definition set_subscribe_group :: "env \<Rightarrow> int list \<Rightarrow> int list \<Rightarrow> credential \<Rightarrow> json io" where
  "set_subscribe_group e uids group_ids c =
     io_bind (io_lift (raise_for_no_sessdata c)) (\<lambda>_.
     io_bind (io_lift (raise_for_no_bili_jct c)) (\<lambda>_.
     request e ''POST'' (API e ''operate'' ''set_user_subscribe_group'') None
       (Some [(''fids'', JStr (utils_join e '','' (map JInt uids))),
              (''tagids'', JStr (utils_join e '','' (map JInt group_ids)))])
       (Some c)))"

definition get_self_history :: "env \<Rightarrow> int \<Rightarrow> int \<Rightarrow> credential option \<Rightarrow> json io" where
  "get_self_history e page_num per_page_item credential =
     (let c = credential_or_default credential in
      io_bind (io_lift (raise_for_no_sessdata c)) (\<lambda>_.
      request e ''GET'' (API e ''info'' ''history'')
        (Some [(''pn'', JInt page_num), (''ps'', JInt per_page_item)]) None (Some c)))"

definition get_self_coins :: "env \<Rightarrow> credential option \<Rightarrow> json io" where
  "get_self_coins e credential =
     (let c = credential_or_default credential in
      io_bind (io_lift (raise_for_no_sessdata c)) (\<lambda>_.
      io_bind (io_lift (raise_for_no_dedeuserid c)) (\<lambda>_.
      io_bind (request e ''GET'' (API e ''info'' ''get_coins'') None None (Some c)) (\<lambda>r.
      io_lift (subscript r ''money'')))))"

definition get_toview_list :: "env \<Rightarrow> credential \<Rightarrow> json io" where
  "get_toview_list e c =
     (let url = get_api e ''toview'' ''info'' ''list'' in
      io_bind (io_lift (raise_for_no_sessdata c)) (\<lambda>_.
      request e ''GET'' url None None (Some c)))"

definition clear_toview_list :: "env \<Rightarrow> credential \<Rightarrow> json io" where
  "clear_toview_list e c =
     (let url = get_api e ''toview'' ''operate'' ''clear'' in
      io_bind (io_lift (raise_for_no_sessdata c)) (\<lambda>_.
      io_bind (io_lift (raise_for_no_bili_jct c)) (\<lambda>_.
      request e ''POST'' url None None (Some c))))"

definition delete_viewed_videos_from_toview :: "env \<Rightarrow> credential \<Rightarrow> json io" where
  "delete_viewed_videos_from_toview e c =
     (let url = get_api e ''toview'' ''operate'' ''del'' in
      io_bind (io_lift (raise_for_no_sessdata c)) (\<lambda>_.
      io_bind (io_lift (raise_for_no_bili_jct c)) (\<lambda>_.
      request e ''POST'' url None (Some [(''viewed'', JStr ''true'')]) (Some c))))"

text \<open>\<^verbatim>\<open>check_nickname\<close>: the \<^verbatim>\<open>except\<close> clause names the class
  \<^verbatim>\<open>ResponseCodeException\<close>, whatever code it carries; any other exception passes
  through.\<close>

definition check_nickname :: "env \<Rightarrow> string \<Rightarrow> (bool \<times> string) io" where
  "check_nickname e nick_name w =
     (case request e ''GET'' (get_api e ''common'' ''nickname'' ''check_nickname'')
             (Some [(''nickName'', JStr nick_name)]) None None w of
        (Inr resp, w') \<Rightarrow> (Inr (True, []), w')
      | (Inl err, w') \<Rightarrow>
          (case err of
             ResponseCodeException code msg \<Rightarrow> (Inr (False, exc_str e err), w')
           | _ \<Rightarrow> (Inl err, w')))"

definition get_self_notes_info :: "env \<Rightarrow> int \<Rightarrow> int \<Rightarrow> credential \<Rightarrow> json io" where
  "get_self_notes_info e page_num page_size c =
     (if \<not> page_num > 0 then io_lift (Inl AssertionError)
      else if \<not> page_size > 0 then io_lift (Inl AssertionError)
      else
        io_bind (io_lift (raise_for_no_sessdata c)) (\<lambda>_.
        request e ''GET'' (API e ''info'' ''all_notes'')
          (Some [(''pn'', JInt page_num), (''ps'', JInt page_size)]) None (Some c)))"

definition get_self_public_notes_info :: "env \<Rightarrow> int \<Rightarrow> int \<Rightarrow> credential \<Rightarrow> json io" where
  "get_self_public_notes_info e page_num page_size c =
     (if \<not> page_num > 0 then io_lift (Inl AssertionError)
      else if \<not> page_size > 0 then io_lift (Inl AssertionError)
      else
        io_bind (io_lift (raise_for_no_sessdata c)) (\<lambda>_.
        request e ''GET'' (API e ''info'' ''public_notes'')
          (Some [(''pn'', JInt page_num), (''ps'', JInt page_size)]) None (Some c)))"

section \<open>What the claims speak of\<close>

text \<open>The string held by field \<open>k\<close> of a feed item, when the item is a dict and the
  field is a string.\<close>

definition str_field :: "json \<Rightarrow> string \<Rightarrow> string option" where
  "str_field item k = (case subscript item k of Inr (JStr s) \<Rightarrow> Some s | _ \<Rightarrow> None)"

text \<open>The parsed value of that field, when the string is valid JSON.\<close>

definition parsed_field :: "env \<Rightarrow> json \<Rightarrow> string \<Rightarrow> json option" where
  "parsed_field e item k = (case str_field item k of Some s \<Rightarrow> json_loads e s | None \<Rightarrow> None)"

text \<open>A feed item with its \<^verbatim>\<open>card\<close> and \<^verbatim>\<open>extend_json\<close> fields replaced by
  their parsed values (an item without two such fields is left alone).\<close>

definition parse_fields :: "env \<Rightarrow> json \<Rightarrow> json" where
  "parse_fields e item =
     (case (item, parsed_field e item ''card'', parsed_field e item ''extend_json'') of
        (JObj kvs, Some v, Some v2) \<Rightarrow>
          JObj (dict_update ''extend_json'' v2 (dict_update ''card'' v kvs))
      | _ \<Rightarrow> item)"

text \<open>The request \<^verbatim>\<open>get_dynamics\<close> sends.\<close>

definition dynamics_call :: "env \<Rightarrow> user \<Rightarrow> int \<Rightarrow> bool \<Rightarrow> gateway_call" where
  "dynamics_call e self offset need_top =
     \<lparr>gc_method = ''GET'', gc_url = API e ''info'' ''dynamic'',
      gc_params = Some [(''host_uid'', user_uid self), (''offset_dynamic_id'', JInt offset),
                        (''need_top'', JInt (if need_top then 1 else 0))],
      gc_data = None, gc_credential = Some (user_credential self)\<rparr>"

text \<open>The channel-list request with a given page size.\<close>

definition channel_list_call :: "env \<Rightarrow> user \<Rightarrow> json \<Rightarrow> gateway_call" where
  "channel_list_call e self page_size =
     \<lparr>gc_method = ''GET'', gc_url = API e ''info'' ''channel_list'',
      gc_params = Some [(''mid'', user_uid self), (''page_num'', JInt 1),
                        (''page_size'', page_size)],
      gc_data = None, gc_credential = Some (user_credential self)\<rparr>"

text \<open>The total a channel-list response reports.\<close>

definition reported_total :: "json \<Rightarrow> error + json" where
  "reported_total res =
     err_bind (subscript res ''items_lists'') (\<lambda>lists.
     err_bind (subscript lists ''page'') (\<lambda>page.
     subscript page ''total''))"

text \<open>The requests of \<^verbatim>\<open>del_channel_series\<close>: own profile, one page of a legacy
  collection, the deletion itself.\<close>

definition self_info_call :: "env \<Rightarrow> credential \<Rightarrow> gateway_call" where
  "self_info_call e c =
     \<lparr>gc_method = ''GET'', gc_url = API e ''info'' ''my_info'', gc_params = None,
      gc_data = None, gc_credential = Some c\<rparr>"

definition series_page_call :: "env \<Rightarrow> json \<Rightarrow> credential \<Rightarrow> int \<Rightarrow> int \<Rightarrow> int \<Rightarrow> gateway_call" where
  "series_page_call e uid c sid ps pn =
     \<lparr>gc_method = ''GET'', gc_url = API e ''info'' ''channel_video_series'',
      gc_params = Some [(''mid'', uid), (''series_id'', JInt sid), (''pn'', JInt pn),
                        (''ps'', JInt ps)],
      gc_data = None, gc_credential = Some c\<rparr>"

definition deletion_call :: "env \<Rightarrow> json \<Rightarrow> credential \<Rightarrow> int \<Rightarrow> json list \<Rightarrow> gateway_call" where
  "deletion_call e uid c sid aids =
     \<lparr>gc_method = ''POST'', gc_url = API e ''channel_series'' ''del_channel_series'',
      gc_params = None,
      gc_data = Some [(''mid'', uid), (''series_id'', JInt sid),
                      (''aids'', JStr (join '','' (map (py_str e) aids)))],
      gc_credential = Some c\<rparr>"

text \<open>The gateway's answers to a sequence of calls made one after the other, starting
  after the events \<open>w\<close>.\<close>

fun replies :: "env \<Rightarrow> event list \<Rightarrow> gateway_call list \<Rightarrow> (error + json) list" where
  "replies e w [] = []"
| "replies e w (c # cs) = gateway e w c # replies e (w @ [Gateway c]) cs"

text \<open>The aids a page answer carries, when it is a payload with an iterable
  \<^verbatim>\<open>aids\<close> field.\<close>

definition page_aids :: "error + json \<Rightarrow> json list option" where
  "page_aids r =
     (case err_bind r (\<lambda>info. err_bind (subscript info ''aids'') iter) of
        Inr xs \<Rightarrow> Some xs
      | Inl _ \<Rightarrow> None)"

text \<open>The metadata of a legacy collection as the plain fetch delivers it: the
  \<^verbatim>\<open>meta\<close> object under \<^verbatim>\<open>data\<close> of the decoded body.\<close>

definition fetched_series_meta :: "env \<Rightarrow> event list \<Rightarrow> int \<Rightarrow> error + json" where
  "fetched_series_meta e w sid =
     err_bind (httpx_get e w (API e ''channel_series'' ''info'') [(''series_id'', JInt sid)])
       (\<lambda>text.
     err_bind (loads e (JStr text)) (\<lambda>body.
     err_bind (subscript body ''data'') (\<lambda>resp.
     subscript resp ''meta'')))"

text \<open>The plain fetch of a legacy collection's metadata, as an event.\<close>

definition series_info_fetch :: "env \<Rightarrow> int \<Rightarrow> event" where
  "series_info_fetch e sid =
     HttpxGet (API e ''channel_series'' ''info'') [(''series_id'', JInt sid)]"

text \<open>The request of \<^verbatim>\<open>check_nickname\<close>.\<close>

definition nickname_call :: "env \<Rightarrow> string \<Rightarrow> gateway_call" where
  "nickname_call e nick_name =
     \<lparr>gc_method = ''GET'', gc_url = get_api e ''common'' ''nickname'' ''check_nickname'',
      gc_params = Some [(''nickName'', JStr nick_name)], gc_data = None,
      gc_credential = None\<rparr>"

section \<open>A concrete environment\<close>

text \<open>A small world to run the functions in: urls are the registry paths, the gateway
  answers by url and parameters, the decoder knows three documents.\<close>

definition sample_get_api :: "string \<Rightarrow> string \<Rightarrow> string \<Rightarrow> string" where
  "sample_get_api name section operation = name @ ''/'' @ section @ ''/'' @ operation"

definition sample_param :: "gateway_call \<Rightarrow> string \<Rightarrow> json" where
  "sample_param call k =
     (case gc_params call of
        None \<Rightarrow> JNull
      | Some ps \<Rightarrow> (case map_of ps k of None \<Rightarrow> JNull | Some v \<Rightarrow> v))"

definition sample_gateway :: "event list \<Rightarrow> gateway_call \<Rightarrow> error + json" where
  "sample_gateway w call =
     (if gc_url call = ''user/info/my_info'' then Inr (JObj [(''mid'', JInt 7)])
      else if gc_url call = ''user/info/channel_list'' then
        Inr (JObj [(''items_lists'',
                    JObj [(''page'', JObj [(''total'', sample_param call ''mid'')])])])
      else if gc_url call = ''user/info/channel_video_series'' then
        (case sample_param call ''pn'' of
           JInt p \<Rightarrow> Inr (JObj [(''aids'', JList [JInt (10 * p), JInt (10 * p + 1)])])
         | _ \<Rightarrow> Inl (ResponseCodeException (- 400) ''bad request''))
      else if gc_url call = ''user/info/dynamic'' then
        (if sample_param call ''host_uid'' = JInt 0
         then Inr (JObj [(''cards'',
                          JList [JObj [(''card'', JStr ''{\"a\":1}''),
                                       (''extend_json'', JStr ''{oops'')]])])
         else Inr (JObj [(''cards'',
                          JList [JObj [(''card'', JStr ''{\"a\":1}''),
                                       (''extend_json'', JStr ''{}'')]])]))
      else if gc_url call = ''common/nickname/check_nickname'' then
        (if sample_param call ''nickName'' = JStr ''taken''
         then Inl (ResponseCodeException 40014 ''taken'')
         else if sample_param call ''nickName'' = JStr ''offline''
         then Inl (NetworkException ''unreachable'')
         else Inr (JObj []))
      else Inr JNull)"

definition sample_httpx_get ::
  "event list \<Rightarrow> string \<Rightarrow> (string \<times> json) list \<Rightarrow> error + string" where
  "sample_httpx_get w url params =
     (if url = ''user/channel_series/info''
      then Inr ''{\"data\":{\"meta\":{\"mid\":9,\"total\":21}}}''
      else Inl (NetworkException ''unreachable''))"

definition sample_json_loads :: "string \<Rightarrow> json option" where
  "sample_json_loads s =
     (if s = ''{\"a\":1}'' then Some (JObj [(''a'', JInt 1)])
      else if s = ''{}'' then Some (JObj [])
      else if s = ''{\"data\":{\"meta\":{\"mid\":9,\"total\":21}}}''
      then Some (JObj [(''data'',
                        JObj [(''meta'', JObj [(''mid'', JInt 9), (''total'', JInt 21)])])])
      else None)"

fun digits :: "nat \<Rightarrow> string" where
  "digits n =
     (if n < 10 then [char_of (48 + n)] else digits (n div 10) @ [char_of (48 + n mod 10)])"

definition sample_str :: "json \<Rightarrow> string" where
  "sample_str v =
     (case v of
        JInt n \<Rightarrow> (if n < 0 then CHR ''-'' # digits (nat (- n)) else digits (nat n))
      | JStr s \<Rightarrow> s
      | _ \<Rightarrow> ''?'')"

definition sample_exc_str :: "error \<Rightarrow> string" where
  "sample_exc_str err =
     (case err of ResponseCodeException code msg \<Rightarrow> ''code: '' @ msg | _ \<Rightarrow> ''error'')"

definition sample_env :: env where
  "sample_env =
     \<lparr>get_api = sample_get_api, gateway = sample_gateway, httpx_get = sample_httpx_get,
      json_loads = sample_json_loads, py_str = sample_str, exc_str = sample_exc_str,
      utils_join = (\<lambda>sep xs. join sep (map sample_str xs))\<rparr>"

definition sample_credential :: credential where
  "sample_credential =
     \<lparr>sessdata = Some ''s'', bili_jct = Some ''j'', buvid3 = None, dedeuserid = None\<rparr>"

section \<open>Running computations\<close>

declare digits.simps [simp del]

lemma err_bind_simps [simp]:
  "err_bind (Inl err) g = Inl err" "err_bind (Inr x) g = g x"
  by (simp_all add: err_bind_def)

lemma err_bind_Inr_iff: "err_bind r g = Inr y \<longleftrightarrow> (\<exists>x. r = Inr x \<and> g x = Inr y)"
  by (cases r) simp_all

lemma io_bind_lift_Inl [simp]: "io_bind (io_lift (Inl err)) f w = (Inl err, w)"
  by (simp add: io_bind_def io_lift_def)

lemma io_bind_lift_Inr [simp]: "io_bind (io_lift (Inr x)) f w = f x w"
  by (simp add: io_bind_def io_lift_def)

lemma io_bind_return [simp]: "io_bind (io_return x) f w = f x w"
  by (simp add: io_bind_def io_return_def)

lemma io_bind_Inr: "m w = (Inr x, w') \<Longrightarrow> io_bind m f w = f x w'"
  by (simp add: io_bind_def)

lemma io_bind_Inr_iff:
  "io_bind m f w = (Inr y, w') \<longleftrightarrow> (\<exists>x w1. m w = (Inr x, w1) \<and> f x w1 = (Inr y, w'))"
  by (auto simp: io_bind_def split: prod.splits sum.splits)

lemma io_lift_eq [simp]: "io_lift r w = (r', w') \<longleftrightarrow> r' = r \<and> w' = w"
  by (auto simp: io_lift_def)

lemma io_return_eq [simp]: "io_return x w = (r', w') \<longleftrightarrow> r' = Inr x \<and> w' = w"
  by (auto simp: io_return_def)

lemma io_bind_request [simp]:
  "io_bind (request e m u p d c) f w =
     (case gateway e w
             \<lparr>gc_method = m, gc_url = u, gc_params = p, gc_data = d, gc_credential = c\<rparr> of
        Inl err \<Rightarrow>
          (Inl err,
           w @ [Gateway \<lparr>gc_method = m, gc_url = u, gc_params = p, gc_data = d,
                          gc_credential = c\<rparr>])
      | Inr x \<Rightarrow>
          f x (w @ [Gateway \<lparr>gc_method = m, gc_url = u, gc_params = p, gc_data = d,
                              gc_credential = c\<rparr>]))"
  by (simp add: io_bind_def request_def Let_def split: sum.split)

lemma io_bind_httpx [simp]:
  "io_bind (httpx_get_text e u p) f w =
     (case httpx_get e w u p of
        Inl err \<Rightarrow> (Inl err, w @ [HttpxGet u p])
      | Inr x \<Rightarrow> f x (w @ [HttpxGet u p]))"
  by (simp add: io_bind_def httpx_get_text_def split: sum.split)

lemma io_bind_sleep [simp]: "io_bind (time_sleep ms) f w = f () (w @ [Sleep ms])"
  by (simp add: io_bind_def time_sleep_def)

lemma gateway_calls_append [simp]:
  "gateway_calls (w @ w') = gateway_calls w @ gateway_calls w'"
  by (induction w rule: gateway_calls.induct) simp_all

lemma no_sessdata [simp]:
  "sessdata c = None \<Longrightarrow> raise_for_no_sessdata c = Inl CredentialNoSessdataException"
  by (simp add: raise_for_no_sessdata_def)

lemma has_tokens [simp]:
  "sessdata c \<noteq> None \<Longrightarrow> raise_for_no_sessdata c = Inr ()"
  "bili_jct c \<noteq> None \<Longrightarrow> raise_for_no_bili_jct c = Inr ()"
  by (simp_all add: raise_for_no_sessdata_def raise_for_no_bili_jct_def)

lemma get_self_info_run:
  "sessdata c \<noteq> None \<Longrightarrow>
     get_self_info e c w = (gateway e w (self_info_call e c), w @ [Gateway (self_info_call e c)])"
  by (auto simp: get_self_info_def raise_for_no_sessdata_def Let_def request_def
      self_info_call_def)

section \<open>Constructing a \<^verbatim>\<open>ChannelSeries\<close>\<close>

text \<open>
  C9.  A collection id left at its default \<open>-1\<close>, or a variant of \<open>None\<close>, fails an
  assertion: the constructor raises \<open>AssertionError\<close> and the events are as before, so
  neither a metadata fetch nor a gateway request was made.  Read backwards, a
  construction that does anything else was given both a collection id and a variant.
\<close>

theorem ChannelSeries_asserts_id_and_type:
  "id' = - 1 \<or> type' = None \<Longrightarrow>
     ChannelSeries e uid type' id' credential meta w = (Inl AssertionError, w)"
  by (auto simp: ChannelSeries_def)

theorem ChannelSeries_asserts_id_and_type_witness:
  "ChannelSeries sample_env 5 (Some SERIES) (- 1) None None [] = (Inl AssertionError, [])
   \<and> ChannelSeries sample_env 5 None 3 None None [] = (Inl AssertionError, [])"
  using ChannelSeries_asserts_id_and_type [of "- 1" "Some SERIES" sample_env 5 None None "[]"]
    ChannelSeries_asserts_id_and_type [of 3 None sample_env 5 None None "[]"]
  by simp

lemma ChannelSeries_series_fetch:
  assumes "id' \<noteq> - 1"
    and "fetched_series_meta e w id' = Inr meta0"
    and "subscript meta0 ''mid'' = Inr mid"
  shows "ChannelSeries e uid (Some SERIES) id' credential None w =
           (Inr \<lparr>cs_uid = mid, cs_is_new = 0, cs_id = id', cs_owner = User mid credential,
                 cs_credential = credential, cs_meta = meta0\<rparr>,
            w @ [series_info_fetch e id'])"
proof -
  from assms(2) obtain doc body resp where
    t: "httpx_get e w (API e ''channel_series'' ''info'') [(''series_id'', JInt id')] = Inr doc"
    and b: "loads e (JStr doc) = Inr body"
    and r: "subscript body ''data'' = Inr resp"
    and m: "subscript resp ''meta'' = Inr meta0"
    unfolding fetched_series_meta_def err_bind_Inr_iff by blast
  show ?thesis
    using assms(1,3) t b r m
    by (simp add: ChannelSeries_def Let_def io_return_def series_info_fetch_def)
qed

lemma sample_series_meta:
  "fetched_series_meta sample_env w 3 = Inr (JObj [(''mid'', JInt 9), (''total'', JInt 21)])"
  by (simp add: fetched_series_meta_def sample_env_def sample_httpx_get_def
      sample_json_loads_def API_def sample_get_api_def)

text \<open>
  C6.  Built with the legacy variant, a collection id, no metadata snapshot and any
  owner uid (the default \<open>-1\<close> included), the constructor makes one plain fetch of the
  collection's metadata, which carries no credential, and no gateway call; when the
  fetched metadata has a \<^verbatim>\<open>mid\<close> field, the owner is the \<open>User\<close> of that uid and
  the facade keeps the metadata.
\<close>

theorem ChannelSeries_series_owner_from_meta:
  assumes "id' \<noteq> - 1"
    and "fetched_series_meta e w id' = Inr meta0"
    and "subscript meta0 ''mid'' = Inr mid"
  shows "\<exists>self.
           ChannelSeries e uid (Some SERIES) id' credential None w =
             (Inr self, w @ [HttpxGet (API e ''channel_series'' ''info'')
                               [(''series_id'', JInt id')]])
           \<and> cs_owner self = User mid credential
           \<and> user_uid (cs_owner self) = mid
           \<and> cs_meta self = meta0"
  using ChannelSeries_series_fetch [OF assms]
  by (simp add: User_def series_info_fetch_def)

theorem ChannelSeries_series_owner_from_meta_witness:
  "\<exists>self.
     ChannelSeries sample_env (- 1) (Some SERIES) 3 None None [] =
       (Inr self, [HttpxGet ''user/channel_series/info'' [(''series_id'', JInt 3)]])
     \<and> cs_owner self = User (JInt 9) None
     \<and> user_uid (cs_owner self) = JInt 9
     \<and> cs_meta self = JObj [(''mid'', JInt 9), (''total'', JInt 21)]"
proof -
  have a: "(3::int) \<noteq> - 1" by simp
  have c: "subscript (JObj [(''mid'', JInt 9), (''total'', JInt 21)]) ''mid'' = Inr (JInt 9)"
    by simp
  from ChannelSeries_series_owner_from_meta
    [OF a sample_series_meta c, where w = "[]" and uid = "- 1" and credential = None]
  show ?thesis
    by (simp add: sample_env_def API_def sample_get_api_def)
qed

lemma ChannelSeries_is_new:
  assumes "ChannelSeries e uid (Some t) id' c meta w0 = (Inr self, w1)"
  shows "cs_is_new self = ChannelSeriesType_value t"
proof (cases meta)
  case (Some m)
  with assms show ?thesis
    by (auto simp: ChannelSeries_def Let_def split: if_splits)
next
  case None
  with assms show ?thesis
    by (cases t)
      (auto simp: ChannelSeries_def Let_def io_bind_Inr_iff
        simp del: io_bind_httpx io_bind_lift_Inr io_bind_lift_Inl split: if_splits)
qed

text \<open>
  C7.  On a facade built with the legacy variant, \<open>get_videos\<close> does the same for any
  two sort values: from the same events, with the same page number and size, it makes
  the same request and returns the same result, since the sort value is not passed
  on.  On a facade built with the modern variant the request carries the sort value
  under \<^verbatim>\<open>sort_reverse\<close>.
\<close>

theorem get_videos_sort_only_for_season:
  "(ChannelSeries e uid (Some SERIES) id' c meta w0 = (Inr self, w1) \<longrightarrow>
      get_videos e self s1 pn ps w = get_videos e self s2 pn ps w)
   \<and> (ChannelSeries e uid (Some SEASON) id' c meta w0 = (Inr self, w1) \<longrightarrow>
      (\<exists>call. snd (get_videos e self s1 pn ps w) = w @ [Gateway call]
         \<and> map_option (\<lambda>ps. map_of ps ''sort_reverse'') (gc_params call) =
             Some (Some (ChannelOrder_value s1))))"
proof (intro conjI impI)
  assume "ChannelSeries e uid (Some SERIES) id' c meta w0 = (Inr self, w1)"
  then have "cs_is_new self = 0"
    using ChannelSeries_is_new by fastforce
  then show "get_videos e self s1 pn ps w = get_videos e self s2 pn ps w"
    by (simp add: get_videos_def)
next
  assume "ChannelSeries e uid (Some SEASON) id' c meta w0 = (Inr self, w1)"
  then have "cs_is_new self = 1"
    using ChannelSeries_is_new by fastforce
  then show "\<exists>call. snd (get_videos e self s1 pn ps w) = w @ [Gateway call]
         \<and> map_option (\<lambda>ps. map_of ps ''sort_reverse'') (gc_params call) =
             Some (Some (ChannelOrder_value s1))"
    by (simp add: get_videos_def get_channel_videos_season_def request_def Let_def)
qed

lemma sample_series_facade:
  "ChannelSeries sample_env 5 (Some SERIES) 3 None (Some JNull) [] =
     (Inr \<lparr>cs_uid = JInt 5, cs_is_new = 0, cs_id = 3, cs_owner = User (JInt 5) None,
           cs_credential = None, cs_meta = JNull\<rparr>, [])"
  by (simp add: ChannelSeries_def Let_def)

lemma sample_season_facade:
  "ChannelSeries sample_env 5 (Some SEASON) 3 None (Some JNull) [] =
     (Inr \<lparr>cs_uid = JInt 5, cs_is_new = 1, cs_id = 3, cs_owner = User (JInt 5) None,
           cs_credential = None, cs_meta = JNull\<rparr>, [])"
  by (simp add: ChannelSeries_def Let_def)

theorem get_videos_sort_only_for_season_witness:
  "get_videos sample_env
     \<lparr>cs_uid = JInt 5, cs_is_new = 0, cs_id = 3, cs_owner = User (JInt 5) None,
      cs_credential = None, cs_meta = JNull\<rparr> DEFAULT 1 100 [] =
   get_videos sample_env
     \<lparr>cs_uid = JInt 5, cs_is_new = 0, cs_id = 3, cs_owner = User (JInt 5) None,
      cs_credential = None, cs_meta = JNull\<rparr> CHANGE 1 100 []
   \<and> (\<exists>call. snd (get_videos sample_env
         \<lparr>cs_uid = JInt 5, cs_is_new = 1, cs_id = 3, cs_owner = User (JInt 5) None,
          cs_credential = None, cs_meta = JNull\<rparr> CHANGE 1 100 []) = [Gateway call]
       \<and> map_option (\<lambda>ps. map_of ps ''sort_reverse'') (gc_params call) =
           Some (Some (JStr ''true'')))"
  using get_videos_sort_only_for_season
      [of sample_env 5 3 None "Some JNull" "[]"
          "\<lparr>cs_uid = JInt 5, cs_is_new = 0, cs_id = 3, cs_owner = User (JInt 5) None,
            cs_credential = None, cs_meta = JNull\<rparr>" "[]" DEFAULT 1 100 "[]" CHANGE]
    get_videos_sort_only_for_season
      [of sample_env 5 3 None "Some JNull" "[]"
          "\<lparr>cs_uid = JInt 5, cs_is_new = 1, cs_id = 3, cs_owner = User (JInt 5) None,
            cs_credential = None, cs_meta = JNull\<rparr>" "[]" CHANGE 1 100 "[]" DEFAULT]
    sample_series_facade sample_season_facade
  by simp

section \<open>Listing a user's channels\<close>

lemma get_channel_list_run:
  assumes "gateway e w (channel_list_call e self (JInt 1)) = Inr res"
    and "reported_total res = Inr tot"
  shows "get_channel_list e self w =
           (gateway e (w @ [Gateway (channel_list_call e self (JInt 1)), Sleep 500])
              (channel_list_call e self (if eq_int tot 0 then JInt 1 else tot)),
            w @ [Gateway (channel_list_call e self (JInt 1)), Sleep 500,
                 Gateway (channel_list_call e self (if eq_int tot 0 then JInt 1 else tot))])"
proof -
  from assms(2) obtain lists page where
    l: "subscript res ''items_lists'' = Inr lists"
    and p: "subscript lists ''page'' = Inr page"
    and t: "subscript page ''total'' = Inr tot"
    unfolding reported_total_def err_bind_Inr_iff by blast
  show ?thesis
    using assms(1) l p t
    by (simp add: get_channel_list_def channel_list_call_def Let_def request_def)
qed

lemma sample_channel_list_reply:
  "gateway sample_env w (channel_list_call sample_env (User (JInt n) None) sz) =
     Inr (JObj [(''items_lists'', JObj [(''page'', JObj [(''total'', JInt n)])])])"
  by (simp add: sample_env_def sample_gateway_def channel_list_call_def API_def
      sample_get_api_def sample_param_def User_def)

lemma sample_reported_total:
  "reported_total (JObj [(''items_lists'', JObj [(''page'', JObj [(''total'', JInt n)])])]) =
     Inr (JInt n)"
  by (simp add: reported_total_def)

text \<open>
  C2.  When the first response of \<open>get_channel_list\<close> reports a total above 1, the run
  makes exactly two gateway calls with a pause between them: the first asks for page
  size 1, the second for a page size equal to the reported total, and the result is
  the gateway's answer to the second.
\<close>

theorem get_channel_list_two_fetches:
  assumes "gateway e w (channel_list_call e self (JInt 1)) = Inr res"
    and "reported_total res = Inr (JInt n)"
    and "1 < n"
  shows "get_channel_list e self w =
           (gateway e (w @ [Gateway (channel_list_call e self (JInt 1)), Sleep 500])
              (channel_list_call e self (JInt n)),
            w @ [Gateway (channel_list_call e self (JInt 1)), Sleep 500,
                 Gateway (channel_list_call e self (JInt n))])
         \<and> gateway_calls (snd (get_channel_list e self w)) =
             gateway_calls w
               @ [channel_list_call e self (JInt 1), channel_list_call e self (JInt n)]
         \<and> map_option (\<lambda>ps. map_of ps ''page_size'')
              (gc_params (channel_list_call e self (JInt 1))) = Some (Some (JInt 1))
         \<and> map_option (\<lambda>ps. map_of ps ''page_size'')
              (gc_params (channel_list_call e self (JInt n))) = Some (Some (JInt n))"
  using get_channel_list_run [OF assms(1,2)] assms(3)
  by (simp add: channel_list_call_def)

theorem get_channel_list_two_fetches_witness:
  "get_channel_list sample_env (User (JInt 3) None) [] =
     (Inr (JObj [(''items_lists'', JObj [(''page'', JObj [(''total'', JInt 3)])])]),
      [Gateway (channel_list_call sample_env (User (JInt 3) None) (JInt 1)), Sleep 500,
       Gateway (channel_list_call sample_env (User (JInt 3) None) (JInt 3))])
   \<and> gateway_calls (snd (get_channel_list sample_env (User (JInt 3) None) [])) =
       [channel_list_call sample_env (User (JInt 3) None) (JInt 1),
        channel_list_call sample_env (User (JInt 3) None) (JInt 3)]"
proof -
  have n: "(1::int) < 3" by simp
  from get_channel_list_two_fetches [OF sample_channel_list_reply sample_reported_total n, of "[]"]
  show ?thesis
    by (simp add: sample_channel_list_reply)
qed

text \<open>
  C10.  When the first response reports a total of 0, the second call is still made,
  asking for page size 1 instead of 0, and its answer is the result.
\<close>

theorem get_channel_list_empty_total:
  assumes "gateway e w (channel_list_call e self (JInt 1)) = Inr res"
    and "reported_total res = Inr (JInt 0)"
  shows "get_channel_list e self w =
           (gateway e (w @ [Gateway (channel_list_call e self (JInt 1)), Sleep 500])
              (channel_list_call e self (JInt 1)),
            w @ [Gateway (channel_list_call e self (JInt 1)), Sleep 500,
                 Gateway (channel_list_call e self (JInt 1))])"
  using get_channel_list_run [OF assms(1,2)]
  by simp

theorem get_channel_list_empty_total_witness:
  "get_channel_list sample_env (User (JInt 0) None) [] =
     (Inr (JObj [(''items_lists'', JObj [(''page'', JObj [(''total'', JInt 0)])])]),
      [Gateway (channel_list_call sample_env (User (JInt 0) None) (JInt 1)), Sleep 500,
       Gateway (channel_list_call sample_env (User (JInt 0) None) (JInt 1))])"
  using get_channel_list_empty_total [OF sample_channel_list_reply sample_reported_total, of "[]"]
  by (simp add: sample_channel_list_reply)

section \<open>Checking a nickname\<close>

text \<open>
  C5.  \<open>check_nickname\<close> makes one gateway call.  When the call succeeds the result is
  \<open>(True, "")\<close>.  When the gateway raises the remote response-code error (class
  \<open>ResponseCodeException\<close>, whatever code and message it carries, hence also the one
  for a nickname that is invalid or taken), nothing is raised: the result is
  \<open>(False, reason)\<close> with \<open>reason\<close> the string form of the exception, which is not
  empty whenever that string form is not.  An error of any other kind is raised
  unchanged.
\<close>

theorem check_nickname_outcomes:
  "(gateway e w (nickname_call e nick_name) = Inr resp \<longrightarrow>
      check_nickname e nick_name w =
        (Inr (True, []), w @ [Gateway (nickname_call e nick_name)]))
   \<and> (gateway e w (nickname_call e nick_name) = Inl (ResponseCodeException code msg) \<longrightarrow>
      check_nickname e nick_name w =
        (Inr (False, exc_str e (ResponseCodeException code msg)),
         w @ [Gateway (nickname_call e nick_name)])
      \<and> (exc_str e (ResponseCodeException code msg) \<noteq> [] \<longrightarrow>
           (\<exists>reason. reason \<noteq> []
              \<and> fst (check_nickname e nick_name w) = Inr (False, reason))))
   \<and> (gateway e w (nickname_call e nick_name) = Inl err
        \<and> (\<forall>code msg. err \<noteq> ResponseCodeException code msg) \<longrightarrow>
      check_nickname e nick_name w = (Inl err, w @ [Gateway (nickname_call e nick_name)]))"
  by (cases err) (simp_all add: check_nickname_def request_def Let_def nickname_call_def)

lemma sample_nickname_replies:
  "gateway sample_env [] (nickname_call sample_env ''free'') = Inr (JObj [])"
  "gateway sample_env [] (nickname_call sample_env ''taken'') =
     Inl (ResponseCodeException 40014 ''taken'')"
  "gateway sample_env [] (nickname_call sample_env ''offline'') =
     Inl (NetworkException ''unreachable'')"
  by (simp_all add: sample_env_def sample_gateway_def nickname_call_def sample_get_api_def
      sample_param_def)

theorem check_nickname_outcomes_witness:
  "check_nickname sample_env ''free'' [] =
     (Inr (True, []), [Gateway (nickname_call sample_env ''free'')])
   \<and> check_nickname sample_env ''taken'' [] =
     (Inr (False, ''code: taken''), [Gateway (nickname_call sample_env ''taken'')])
   \<and> check_nickname sample_env ''offline'' [] =
     (Inl (NetworkException ''unreachable''), [Gateway (nickname_call sample_env ''offline'')])"
  using check_nickname_outcomes
      [of sample_env "[]" "''free''" "JObj []" 0 "[]" AssertionError]
    check_nickname_outcomes
      [of sample_env "[]" "''taken''" JNull 40014 "''taken''" AssertionError]
    check_nickname_outcomes
      [of sample_env "[]" "''offline''" JNull 0 "[]" "NetworkException ''unreachable''"]
    sample_nickname_replies
  by (simp add: sample_env_def sample_exc_str_def)

section \<open>The dynamics feed\<close>

lemma map_of_dict_update: "map_of (dict_update k v ps) = (map_of ps)(k \<mapsto> v)"
  by (induction ps) auto

lemma str_field_dict:
  assumes "str_field item k = Some s"
  obtains kvs where "item = JObj kvs" and "map_of kvs k = Some (JStr s)"
  using assms
  by (cases item) (auto simp: str_field_def split: option.splits sum.splits json.splits)

lemma parsed_field_Some:
  "parsed_field e item k = Some v \<longleftrightarrow>
     (\<exists>s. str_field item k = Some s \<and> json_loads e s = Some v)"
  by (auto simp: parsed_field_def split: option.splits)

lemma convert_card_valid:
  assumes "parsed_field e item ''card'' = Some v"
    and "parsed_field e item ''extend_json'' = Some v2"
  shows "convert_card e item = Inr (parse_fields e item)"
    and "subscript (parse_fields e item) ''card'' = Inr v"
    and "subscript (parse_fields e item) ''extend_json'' = Inr v2"
proof -
  from assms obtain s s2 where
    s: "str_field item ''card'' = Some s" "json_loads e s = Some v"
    and s2: "str_field item ''extend_json'' = Some s2" "json_loads e s2 = Some v2"
    unfolding parsed_field_Some by blast
  from s(1) obtain kvs where item: "item = JObj kvs"
    and c: "map_of kvs ''card'' = Some (JStr s)"
    by (rule str_field_dict)
  from s2(1) item have x: "map_of kvs ''extend_json'' = Some (JStr s2)"
    by (auto simp: str_field_def split: option.splits json.splits)
  show "convert_card e item = Inr (parse_fields e item)"
    using assms s s2 c x
    by (simp add: convert_card_def parse_fields_def item map_of_dict_update)
  show "subscript (parse_fields e item) ''card'' = Inr v"
    using assms by (simp add: parse_fields_def item map_of_dict_update)
  show "subscript (parse_fields e item) ''extend_json'' = Inr v2"
    using assms by (simp add: parse_fields_def item map_of_dict_update)
qed

lemma convert_cards_valid:
  assumes "\<forall>item\<in>set items. parsed_field e item ''card'' \<noteq> None
             \<and> parsed_field e item ''extend_json'' \<noteq> None"
  shows "convert_cards e items = Inr (map (parse_fields e) items)"
  using assms
proof (induction items)
  case Nil
  show ?case by simp
next
  case (Cons item items)
  then obtain v v2 where "parsed_field e item ''card'' = Some v"
    "parsed_field e item ''extend_json'' = Some v2"
    by auto
  then have "convert_card e item = Inr (parse_fields e item)"
    by (rule convert_card_valid)
  with Cons show ?case by simp
qed

lemma convert_card_undecodable:
  assumes "str_field item ''card'' = Some s" and "str_field item ''extend_json'' = Some s2"
    and "json_loads e s = None \<or> json_loads e s2 = None"
  shows "convert_card e item = Inl JSONDecodeError"
proof -
  from assms(1) obtain kvs where item: "item = JObj kvs"
    and c: "map_of kvs ''card'' = Some (JStr s)"
    by (rule str_field_dict)
  from assms(2) item have x: "map_of kvs ''extend_json'' = Some (JStr s2)"
    by (auto simp: str_field_def split: option.splits json.splits)
  show ?thesis
    using assms(3) c x
    by (auto simp: convert_card_def item map_of_dict_update split: option.splits)
qed

lemma convert_card_shaped:
  assumes "str_field item ''card'' \<noteq> None" and "str_field item ''extend_json'' \<noteq> None"
  shows "convert_card e item = Inl JSONDecodeError
         \<and> (parsed_field e item ''card'' = None \<or> parsed_field e item ''extend_json'' = None)
       \<or> convert_card e item = Inr (parse_fields e item)
         \<and> parsed_field e item ''card'' \<noteq> None \<and> parsed_field e item ''extend_json'' \<noteq> None"
proof -
  from assms obtain s s2 where s: "str_field item ''card'' = Some s"
    and s2: "str_field item ''extend_json'' = Some s2" by auto
  show ?thesis
  proof (cases "json_loads e s = None \<or> json_loads e s2 = None")
    case True
    with s s2 have "convert_card e item = Inl JSONDecodeError"
      by (rule convert_card_undecodable)
    moreover from True s s2
    have "parsed_field e item ''card'' = None \<or> parsed_field e item ''extend_json'' = None"
      by (auto simp: parsed_field_def)
    ultimately show ?thesis by simp
  next
    case False
    then obtain v v2 where "json_loads e s = Some v" "json_loads e s2 = Some v2" by auto
    with s s2 have p: "parsed_field e item ''card'' = Some v"
      "parsed_field e item ''extend_json'' = Some v2"
      by (simp_all add: parsed_field_def)
    then have "convert_card e item = Inr (parse_fields e item)"
      by (rule convert_card_valid)
    with p show ?thesis by simp
  qed
qed

lemma convert_cards_undecodable:
  assumes "\<forall>item\<in>set items.
             str_field item ''card'' \<noteq> None \<and> str_field item ''extend_json'' \<noteq> None"
    and "\<exists>item\<in>set items.
           parsed_field e item ''card'' = None \<or> parsed_field e item ''extend_json'' = None"
  shows "convert_cards e items = Inl JSONDecodeError"
  using assms
proof (induction items)
  case Nil
  then show ?case by simp
next
  case (Cons item items)
  from Cons.prems(1) have shaped: "str_field item ''card'' \<noteq> None"
    "str_field item ''extend_json'' \<noteq> None"
    by simp_all
  from convert_card_shaped [OF shaped, of e] consider
      (bad) "convert_card e item = Inl JSONDecodeError"
    | (ok) "convert_card e item = Inr (parse_fields e item)"
        "parsed_field e item ''card'' \<noteq> None" "parsed_field e item ''extend_json'' \<noteq> None"
    by blast
  then show ?case
  proof cases
    case bad
    then show ?thesis by simp
  next
    case ok
    with Cons.prems(2)
    have "\<exists>item\<in>set items.
            parsed_field e item ''card'' = None \<or> parsed_field e item ''extend_json'' = None"
      by auto
    with Cons.IH Cons.prems(1) have "convert_cards e items = Inl JSONDecodeError" by simp
    with ok show ?thesis by simp
  qed
qed

lemma get_dynamics_cards:
  assumes "gateway e w (dynamics_call e self offset need_top) = Inr (JObj kvs)"
    and "map_of kvs ''cards'' = Some (JList items)"
  shows "get_dynamics e self offset need_top w =
           (err_bind (convert_cards e items)
              (\<lambda>items'. Inr (JObj (dict_update ''cards'' (JList items') kvs))),
            w @ [Gateway (dynamics_call e self offset need_top)])"
  using assms
  by (cases "convert_cards e items")
    (simp_all add: get_dynamics_def dynamics_call_def io_lift_def)

text \<open>
  C4.  When the gateway's payload is a dict whose \<^verbatim>\<open>cards\<close> entry is a list, and
  every item of the list is a dict whose \<^verbatim>\<open>card\<close> and \<^verbatim>\<open>extend_json\<close> fields
  are strings that \<^verbatim>\<open>json.loads\<close> accepts, \<open>get_dynamics\<close> returns the payload with
  each item replaced by the item whose two fields hold the parsed values; everything
  else in the payload is as it was.  In particular, for a decoder that reads
  \<^verbatim>\<open>{"a":1}\<close> and \<^verbatim>\<open>{}\<close> as Python does, the payload
  \<^verbatim>\<open>{"cards": [{"card": "{\"a\":1}", "extend_json": "{}"}]}\<close> comes back with
  \<^verbatim>\<open>card == {"a": 1}\<close> and \<^verbatim>\<open>extend_json == {}\<close>.
\<close>

theorem get_dynamics_parses_card_fields:
  "(gateway e w (dynamics_call e self offset need_top) = Inr (JObj kvs)
      \<and> map_of kvs ''cards'' = Some (JList items)
      \<and> (\<forall>item\<in>set items. parsed_field e item ''card'' \<noteq> None
             \<and> parsed_field e item ''extend_json'' \<noteq> None)
    \<longrightarrow> get_dynamics e self offset need_top w =
          (Inr (JObj (dict_update ''cards'' (JList (map (parse_fields e) items)) kvs)),
           w @ [Gateway (dynamics_call e self offset need_top)])
        \<and> (\<forall>item\<in>set items.
             map_option Inr (parsed_field e item ''card'') =
               Some (subscript (parse_fields e item) ''card'')
             \<and> map_option Inr (parsed_field e item ''extend_json'') =
               Some (subscript (parse_fields e item) ''extend_json'')))
   \<and> (json_loads e ''{\"a\":1}'' = Some (JObj [(''a'', JInt 1)])
      \<and> json_loads e ''{}'' = Some (JObj [])
      \<and> gateway e w (dynamics_call e self offset need_top) =
          Inr (JObj [(''cards'', JList [JObj [(''card'', JStr ''{\"a\":1}''),
                                              (''extend_json'', JStr ''{}'')]])])
    \<longrightarrow> get_dynamics e self offset need_top w =
          (Inr (JObj [(''cards'', JList [JObj [(''card'', JObj [(''a'', JInt 1)]),
                                               (''extend_json'', JObj [])]])]),
           w @ [Gateway (dynamics_call e self offset need_top)]))"
proof (intro conjI impI ballI)
  assume a: "gateway e w (dynamics_call e self offset need_top) = Inr (JObj kvs)
      \<and> map_of kvs ''cards'' = Some (JList items)
      \<and> (\<forall>item\<in>set items. parsed_field e item ''card'' \<noteq> None
             \<and> parsed_field e item ''extend_json'' \<noteq> None)"
  then have "convert_cards e items = Inr (map (parse_fields e) items)"
    by (intro convert_cards_valid) simp
  with a show "get_dynamics e self offset need_top w =
          (Inr (JObj (dict_update ''cards'' (JList (map (parse_fields e) items)) kvs)),
           w @ [Gateway (dynamics_call e self offset need_top)])"
    by (simp add: get_dynamics_cards)
  fix item assume "item \<in> set items"
  with a obtain v v2 where p: "parsed_field e item ''card'' = Some v"
    "parsed_field e item ''extend_json'' = Some v2"
    by auto
  from convert_card_valid(2) [OF p] p
  show "map_option Inr (parsed_field e item ''card'') =
               Some (subscript (parse_fields e item) ''card'')"
    by simp
  from convert_card_valid(3) [OF p] p
  show "map_option Inr (parsed_field e item ''extend_json'') =
               Some (subscript (parse_fields e item) ''extend_json'')"
    by simp
next
  assume b: "json_loads e ''{\"a\":1}'' = Some (JObj [(''a'', JInt 1)])
      \<and> json_loads e ''{}'' = Some (JObj [])
      \<and> gateway e w (dynamics_call e self offset need_top) =
          Inr (JObj [(''cards'', JList [JObj [(''card'', JStr ''{\"a\":1}''),
                                              (''extend_json'', JStr ''{}'')]])])"
  then have g: "gateway e w (dynamics_call e self offset need_top) =
          Inr (JObj [(''cards'', JList [JObj [(''card'', JStr ''{\"a\":1}''),
                                              (''extend_json'', JStr ''{}'')]])])"
    by simp
  have m: "map_of [(''cards'', JList [JObj [(''card'', JStr ''{\"a\":1}''),
                                              (''extend_json'', JStr ''{}'')]])] ''cards''
        = Some (JList [JObj [(''card'', JStr ''{\"a\":1}''), (''extend_json'', JStr ''{}'')]])"
    by simp
  from b show "get_dynamics e self offset need_top w =
          (Inr (JObj [(''cards'', JList [JObj [(''card'', JObj [(''a'', JInt 1)]),
                                               (''extend_json'', JObj [])]])]),
           w @ [Gateway (dynamics_call e self offset need_top)])"
    by (simp add: get_dynamics_cards [OF g m] convert_card_def)
qed

lemma sample_dynamics_reply:
  "gateway sample_env [] (dynamics_call sample_env (User (JInt 5) None) 0 False) =
     Inr (JObj [(''cards'', JList [JObj [(''card'', JStr ''{\"a\":1}''),
                                         (''extend_json'', JStr ''{}'')]])])"
  by (simp add: sample_env_def sample_gateway_def dynamics_call_def API_def
      sample_get_api_def sample_param_def User_def)

lemma sample_loads:
  "json_loads sample_env ''{\"a\":1}'' = Some (JObj [(''a'', JInt 1)])"
  "json_loads sample_env ''{}'' = Some (JObj [])"
  "json_loads sample_env ''{oops'' = None"
  by (simp_all add: sample_env_def sample_json_loads_def)

theorem get_dynamics_parses_card_fields_witness:
  "get_dynamics sample_env (User (JInt 5) None) 0 False [] =
     (Inr (JObj [(''cards'', JList [JObj [(''card'', JObj [(''a'', JInt 1)]),
                                          (''extend_json'', JObj [])]])]),
      [Gateway (dynamics_call sample_env (User (JInt 5) None) 0 False)])
   \<and> parse_fields sample_env
       (JObj [(''card'', JStr ''{\"a\":1}''), (''extend_json'', JStr ''{}'')]) =
     JObj [(''card'', JObj [(''a'', JInt 1)]), (''extend_json'', JObj [])]"
proof -
  have p: "parse_fields sample_env
       (JObj [(''card'', JStr ''{\"a\":1}''), (''extend_json'', JStr ''{}'')]) =
     JObj [(''card'', JObj [(''a'', JInt 1)]), (''extend_json'', JObj [])]"
    by (simp add: parse_fields_def parsed_field_def str_field_def sample_loads)
  have v: "\<forall>item\<in>set [JObj [(''card'', JStr ''{\"a\":1}''), (''extend_json'', JStr ''{}'')]].
      parsed_field sample_env item ''card'' \<noteq> None
      \<and> parsed_field sample_env item ''extend_json'' \<noteq> None"
    by (simp add: parsed_field_def str_field_def sample_loads)
  from get_dynamics_parses_card_fields
    [of sample_env "[]" "User (JInt 5) None" 0 False
      "[(''cards'', JList [JObj [(''card'', JStr ''{\"a\":1}''), (''extend_json'', JStr ''{}'')]])]"
      "[JObj [(''card'', JStr ''{\"a\":1}''), (''extend_json'', JStr ''{}'')]]"]
    sample_dynamics_reply v p
  show ?thesis
    by simp
qed

text \<open>
  C8.  When the payload's \<^verbatim>\<open>cards\<close> entry is a list of dicts that all carry string
  \<^verbatim>\<open>card\<close> and \<^verbatim>\<open>extend_json\<close> fields, and for some item one of the two strings
  is not valid JSON, \<open>get_dynamics\<close> raises the JSON decode error, after its one gateway
  call: the failure is neither caught nor turned into a result or another error.
\<close>

theorem get_dynamics_decode_error_propagates:
  assumes "gateway e w (dynamics_call e self offset need_top) = Inr (JObj kvs)"
    and "map_of kvs ''cards'' = Some (JList items)"
    and "\<forall>item\<in>set items.
           str_field item ''card'' \<noteq> None \<and> str_field item ''extend_json'' \<noteq> None"
    and "\<exists>item\<in>set items.
           parsed_field e item ''card'' = None \<or> parsed_field e item ''extend_json'' = None"
  shows "get_dynamics e self offset need_top w =
           (Inl JSONDecodeError, w @ [Gateway (dynamics_call e self offset need_top)])"
  using convert_cards_undecodable [OF assms(3,4)]
  by (simp add: get_dynamics_cards [OF assms(1,2)])

lemma sample_bad_dynamics_reply:
  "gateway sample_env [] (dynamics_call sample_env (User (JInt 0) None) 0 False) =
     Inr (JObj [(''cards'', JList [JObj [(''card'', JStr ''{\"a\":1}''),
                                         (''extend_json'', JStr ''{oops'')]])])"
  by (simp add: sample_env_def sample_gateway_def dynamics_call_def API_def
      sample_get_api_def sample_param_def User_def)

theorem get_dynamics_decode_error_propagates_witness:
  "get_dynamics sample_env (User (JInt 0) None) 0 False [] =
     (Inl JSONDecodeError, [Gateway (dynamics_call sample_env (User (JInt 0) None) 0 False)])"
proof -
  have m: "map_of [(''cards'', JList [JObj [(''card'', JStr ''{\"a\":1}''),
                                            (''extend_json'', JStr ''{oops'')]])] ''cards'' =
      Some (JList [JObj [(''card'', JStr ''{\"a\":1}''), (''extend_json'', JStr ''{oops'')]])"
    by simp
  have s: "\<forall>item\<in>set [JObj [(''card'', JStr ''{\"a\":1}''), (''extend_json'', JStr ''{oops'')]].
      str_field item ''card'' \<noteq> None \<and> str_field item ''extend_json'' \<noteq> None"
    by (simp add: str_field_def)
  have b: "\<exists>item\<in>set [JObj [(''card'', JStr ''{\"a\":1}''), (''extend_json'', JStr ''{oops'')]].
      parsed_field sample_env item ''card'' = None
      \<or> parsed_field sample_env item ''extend_json'' = None"
    by (simp add: parsed_field_def str_field_def sample_loads)
  from get_dynamics_decode_error_propagates [OF sample_bad_dynamics_reply m s b]
  show ?thesis
    by simp
qed

section \<open>Deleting a legacy collection\<close>

lemma pages_ceiling:
  "n div 20 + (if n mod 20 \<noteq> 0 then 1 else 0) = \<lceil>of_int n / (20::real)\<rceil>"
proof -
  have "\<lceil>of_int n / (20::real)\<rceil> = - ((- n) div 20)"
    using floor_divide_of_int_eq [of "- n" 20, where ?'a = real]
    by (simp add: ceiling_def)
  also have "\<dots> = n div 20 + (if n mod 20 \<noteq> 0 then 1 else 0)"
    by (simp add: zdiv_zminus1_eq_if)
  finally show ?thesis by simp
qed

lemma append_all_eq: "append_all aids xs = aids @ xs"
  by (induction xs arbitrary: aids) simp_all

lemma page_aids_Some:
  "page_aids r = Some xs \<longleftrightarrow>
     (\<exists>info v. r = Inr info \<and> subscript info ''aids'' = Inr v \<and> iter v = Inr xs)"
  by (auto simp: page_aids_def err_bind_Inr_iff split: sum.splits)

lemma walk_pages_run:
  assumes "map page_aids (replies e w (map (series_page_call e uid c sid 20) pages)) =
             map Some As"
  shows "walk_pages e uid c sid pages acc w =
           (Inr (acc @ concat As),
            w @ map Gateway (map (series_page_call e uid c sid 20) pages))"
  using assms
proof (induction pages arbitrary: acc w As)
  case Nil
  then show ?case by (simp add: io_return_def)
next
  case (Cons page pages)
  from Cons.prems obtain A As' where As: "As = A # As'"
    and hd: "page_aids (gateway e w (series_page_call e uid c sid 20 page)) = Some A"
    and tl: "map page_aids (replies e (w @ [Gateway (series_page_call e uid c sid 20 page)])
               (map (series_page_call e uid c sid 20) pages)) = map Some As'"
    by (cases As) auto
  from hd obtain info v where
    r: "gateway e w (series_page_call e uid c sid 20 page) = Inr info"
    and a: "subscript info ''aids'' = Inr v" and i: "iter v = Inr A"
    unfolding page_aids_Some by blast
  from r have r': "gateway e w
      \<lparr>gc_method = ''GET'', gc_url = API e ''info'' ''channel_video_series'',
       gc_params = Some [(''mid'', uid), (''series_id'', JInt sid), (''pn'', JInt page),
                         (''ps'', JInt 20)],
       gc_data = None, gc_credential = Some c\<rparr> = Inr info"
    by (simp add: series_page_call_def)
  have "walk_pages e uid c sid (page # pages) acc w =
          walk_pages e uid c sid pages (acc @ A)
            (w @ [Gateway (series_page_call e uid c sid 20 page)])"
    using r' a i
    by (simp add: get_channel_videos_series_def User_def credential_or_default_def
        append_all_eq series_page_call_def)
  also have "\<dots> = (Inr ((acc @ A) @ concat As'),
      (w @ [Gateway (series_page_call e uid c sid 20 page)])
        @ map Gateway (map (series_page_call e uid c sid 20) pages))"
    by (rule Cons.IH [OF tl])
  finally show ?case by (simp add: As)
qed

text \<open>
  C3.  Take a credential with session and cross-site tokens and a collection id other
  than \<open>-1\<close>, and let the plain fetch deliver the collection's metadata with an owner
  and a member count \<open>n\<close>, the gateway deliver the caller's own profile with uid
  \<open>self_uid\<close>, and the page requests for pages \<open>1\<close> to \<open>\<lceil>n / 20\<rceil>\<close> (page size 20,
  made in increasing order, each after the ones before) deliver the aid lists \<open>As\<close>.
  Then \<open>del_channel_series\<close> does just this, in this order: the metadata fetch, the
  profile request, the page requests, and one deletion request whose aid list is the
  pages' aids joined in page order; its result is the gateway's answer to the deletion.
\<close>

theorem del_channel_series_deletes_all_pages:
  assumes "sessdata c \<noteq> None" and "bili_jct c \<noteq> None" and "series_id \<noteq> - 1"
    and "fetched_series_meta e w series_id = Inr meta0"
    and "subscript meta0 ''mid'' = Inr owner_mid"
    and "subscript meta0 ''total'' = Inr (JInt n)"
    and "gateway e (w @ [series_info_fetch e series_id]) (self_info_call e c) = Inr info"
    and "subscript info ''mid'' = Inr self_uid"
    and "pages = map (series_page_call e self_uid c series_id 20) [1..\<lceil>of_int n / (20::real)\<rceil>]"
    and "map page_aids
           (replies e (w @ [series_info_fetch e series_id, Gateway (self_info_call e c)]) pages) =
         map Some As"
  shows "del_channel_series e series_id c w =
           (gateway e
              (w @ [series_info_fetch e series_id, Gateway (self_info_call e c)]
                 @ map Gateway pages)
              (deletion_call e self_uid c series_id (concat As)),
            w @ [series_info_fetch e series_id, Gateway (self_info_call e c)]
              @ map Gateway pages
              @ [Gateway (deletion_call e self_uid c series_id (concat As))])"
proof -
  let ?w0 = "w @ [series_info_fetch e series_id]"
  let ?w1 = "w @ [series_info_fetch e series_id, Gateway (self_info_call e c)]"
  have cs: "ChannelSeries e (- 1) (Some SERIES) series_id (Some c) None w =
           (Inr \<lparr>cs_uid = owner_mid, cs_is_new = 0, cs_id = series_id,
                 cs_owner = User owner_mid (Some c), cs_credential = Some c,
                 cs_meta = meta0\<rparr>, ?w0)"
    using assms(3,4,5) by (rule ChannelSeries_series_fetch)
  have si: "get_self_info e c ?w0 = (Inr info, ?w1)"
    using assms(1,7) by (simp add: get_self_info_run)
  have walk: "walk_pages e self_uid c series_id [1..\<lceil>of_int n / (20::real)\<rceil>] [] ?w1 =
      (Inr (concat As), ?w1 @ map Gateway pages)"
    using walk_pages_run
      [of e ?w1 self_uid c series_id "[1..\<lceil>of_int n / (20::real)\<rceil>]" As "[]"]
      assms(9,10) by simp
  have "del_channel_series e series_id c w =
      io_bind (walk_pages e self_uid c series_id [1..\<lceil>of_int n / (20::real)\<rceil>] [])
        (\<lambda>aids.
          request e ''POST'' (API e ''channel_series'' ''del_channel_series'') None
            (Some [(''mid'', self_uid), (''series_id'', JInt series_id),
                   (''aids'', JStr (join '','' (map (py_str e) aids)))])
            (Some c)) ?w1"
    using assms(1,2,6,8)
    by (simp add: del_channel_series_def
        io_bind_Inr [where m = "ChannelSeries e (- 1) (Some SERIES) series_id (Some c) None"
          and w = w, OF cs]
        io_bind_Inr [where m = "get_self_info e c", OF si]
        get_meta_def Let_def pages_ceiling)
  also have "\<dots> =
      (gateway e (?w1 @ map Gateway pages) (deletion_call e self_uid c series_id (concat As)),
       ?w1 @ map Gateway pages @ [Gateway (deletion_call e self_uid c series_id (concat As))])"
    by (simp add: io_bind_def walk request_def deletion_call_def Let_def)
  finally show ?thesis by simp
qed

lemma sample_self_info_reply:
  "gateway sample_env w (self_info_call sample_env c) = Inr (JObj [(''mid'', JInt 7)])"
  by (simp add: sample_env_def sample_gateway_def self_info_call_def API_def
      sample_get_api_def)

lemma sample_page_reply:
  "gateway sample_env w (series_page_call sample_env uid c sid ps p) =
     Inr (JObj [(''aids'', JList [JInt (10 * p), JInt (10 * p + 1)])])"
  by (simp add: sample_env_def sample_gateway_def series_page_call_def API_def
      sample_get_api_def sample_param_def)

theorem del_channel_series_deletes_all_pages_witness:
  "snd (del_channel_series sample_env 3 sample_credential []) =
     [series_info_fetch sample_env 3, Gateway (self_info_call sample_env sample_credential),
      Gateway (series_page_call sample_env (JInt 7) sample_credential 3 20 1),
      Gateway (series_page_call sample_env (JInt 7) sample_credential 3 20 2),
      Gateway (deletion_call sample_env (JInt 7) sample_credential 3
                 [JInt 10, JInt 11, JInt 20, JInt 21])]
   \<and> map_option (\<lambda>d. map_of d ''aids'')
        (gc_data (deletion_call sample_env (JInt 7) sample_credential 3
                    [JInt 10, JInt 11, JInt 20, JInt 21])) =
      Some (Some (JStr ''10,11,20,21''))"
proof -
  have s: "sessdata sample_credential \<noteq> None" and j: "bili_jct sample_credential \<noteq> None"
    by (simp_all add: sample_credential_def)
  have i: "(3::int) \<noteq> - 1" by simp
  have m: "subscript (JObj [(''mid'', JInt 9), (''total'', JInt 21)]) ''mid'' = Inr (JInt 9)"
    and t: "subscript (JObj [(''mid'', JInt 9), (''total'', JInt 21)]) ''total'' = Inr (JInt 21)"
    by simp_all
  have u: "subscript (JObj [(''mid'', JInt 7)]) ''mid'' = Inr (JInt 7)" by simp
  have p: "[series_page_call sample_env (JInt 7) sample_credential 3 20 1,
            series_page_call sample_env (JInt 7) sample_credential 3 20 2] =
      map (series_page_call sample_env (JInt 7) sample_credential 3 20)
        [1..\<lceil>of_int 21 / (20::real)\<rceil>]"
    by (simp add: upto_rec1)
  have r: "map page_aids
      (replies sample_env
         ([] @ [series_info_fetch sample_env 3,
                Gateway (self_info_call sample_env sample_credential)])
         [series_page_call sample_env (JInt 7) sample_credential 3 20 1,
          series_page_call sample_env (JInt 7) sample_credential 3 20 2]) =
      map Some [[JInt 10, JInt 11], [JInt 20, JInt 21]]"
    by (simp add: sample_page_reply page_aids_def)
  have d: "join '','' (map sample_str [JInt 10, JInt 11, JInt 20, JInt 21]) = ''10,11,20,21''"
    by code_simp
  have ps: "py_str sample_env = sample_str"
    by (simp add: sample_env_def)
  from del_channel_series_deletes_all_pages
    [OF s j i sample_series_meta m t sample_self_info_reply u p r]
  have "snd (del_channel_series sample_env 3 sample_credential []) =
     [series_info_fetch sample_env 3, Gateway (self_info_call sample_env sample_credential),
      Gateway (series_page_call sample_env (JInt 7) sample_credential 3 20 1),
      Gateway (series_page_call sample_env (JInt 7) sample_credential 3 20 2),
      Gateway (deletion_call sample_env (JInt 7) sample_credential 3
                 [JInt 10, JInt 11, JInt 20, JInt 21])]"
    by simp
  moreover have "map_option (\<lambda>d. map_of d ''aids'')
        (gc_data (deletion_call sample_env (JInt 7) sample_credential 3
                    [JInt 10, JInt 11, JInt 20, JInt 21])) =
      Some (Some (JStr ''10,11,20,21''))"
    unfolding deletion_call_def ps d by simp
  ultimately show ?thesis by simp
qed

section \<open>The session token is checked first\<close>

lemma user_ops_need_sessdata:
  assumes "sessdata (user_credential self) = None"
  shows "set_space_notice e self content w = (Inl CredentialNoSessdataException, w)"
    and "get_user_medal e self w = (Inl CredentialNoSessdataException, w)"
    and "modify_relation e self relation w = (Inl CredentialNoSessdataException, w)"
  using assms
  by (simp_all add: set_space_notice_def get_user_medal_def modify_relation_def)

lemma optional_credential_ops_need_sessdata:
  assumes "sessdata (credential_or_default credential) = None"
  shows "create_channel_series e name aids keywords description credential w =
           (Inl CredentialNoSessdataException, w)"
    and "get_self_history e page_num per_page_item credential w =
           (Inl CredentialNoSessdataException, w)"
    and "get_self_coins e credential w = (Inl CredentialNoSessdataException, w)"
  using assms
  by (simp_all add: create_channel_series_def get_self_history_def get_self_coins_def Let_def)

lemma series_ops_need_sessdata:
  assumes "sessdata c = None"
  shows "del_channel_series e series_id c w = (Inl CredentialNoSessdataException, w)"
    and "add_aids_to_series e series_id ids c w = (Inl CredentialNoSessdataException, w)"
    and "del_aids_from_series e series_id ids c w = (Inl CredentialNoSessdataException, w)"
  using assms
  by (simp_all add: del_channel_series_def add_aids_to_series_def del_aids_from_series_def)

lemma self_ops_need_sessdata:
  assumes "sessdata c = None"
  shows "get_self_info e c w = (Inl CredentialNoSessdataException, w)"
    and "edit_self_info e birthday sex uname usersign c w =
           (Inl CredentialNoSessdataException, w)"
    and "get_toview_list e c w = (Inl CredentialNoSessdataException, w)"
    and "clear_toview_list e c w = (Inl CredentialNoSessdataException, w)"
    and "delete_viewed_videos_from_toview e c w = (Inl CredentialNoSessdataException, w)"
  using assms
  by (simp_all add: get_self_info_def edit_self_info_def get_toview_list_def
      clear_toview_list_def delete_viewed_videos_from_toview_def Let_def)

lemma group_ops_need_sessdata:
  assumes "sessdata c = None"
  shows "create_subscribe_group e name c w = (Inl CredentialNoSessdataException, w)"
    and "delete_subscribe_group e group_id c w = (Inl CredentialNoSessdataException, w)"
    and "rename_subscribe_group e group_id new_name c w =
           (Inl CredentialNoSessdataException, w)"
    and "set_subscribe_group e uids group_ids c w = (Inl CredentialNoSessdataException, w)"
  using assms
  by (simp_all add: create_subscribe_group_def delete_subscribe_group_def
      rename_subscribe_group_def set_subscribe_group_def)

lemma notes_ops_need_sessdata:
  assumes "sessdata c = None"
  shows "get_self_notes_info e page_num page_size c w =
           (Inl (if 0 < page_num \<and> 0 < page_size then CredentialNoSessdataException
                 else AssertionError), w)"
    and "get_self_public_notes_info e page_num page_size c w =
           (Inl (if 0 < page_num \<and> 0 < page_size then CredentialNoSessdataException
                 else AssertionError), w)"
  using assms
  by (simp_all add: get_self_notes_info_def get_self_public_notes_info_def io_lift_def)

text \<open>
  C1, as the code has it.  Let the credential an operation checks lack the session
  token.  Each of the operations that check it (\<open>set_space_notice\<close>, \<open>get_user_medal\<close>,
  \<open>modify_relation\<close>, \<open>create_channel_series\<close>, \<open>del_channel_series\<close>,
  \<open>add_aids_to_series\<close>, \<open>del_aids_from_series\<close>, \<open>get_self_info\<close>, \<open>edit_self_info\<close>,
  the four subscribe-group operations, \<open>get_self_history\<close>, \<open>get_self_coins\<close>, the three
  watch-later operations) raises the credential precondition error with the events
  unchanged: no gateway call and no fetch was made.  The two notes listings assert
  their page arguments before they look at the credential: with positive page
  arguments they behave as the others, with a non-positive one they raise an
  assertion failure instead, in both cases with the events unchanged.
\<close>

theorem session_token_checked_before_gateway:
  assumes "sessdata c = None"
  shows "(user_credential self = c \<longrightarrow>
            set_space_notice e self content w = (Inl CredentialNoSessdataException, w)
          \<and> get_user_medal e self w = (Inl CredentialNoSessdataException, w)
          \<and> modify_relation e self relation w = (Inl CredentialNoSessdataException, w))
       \<and> (credential_or_default credential = c \<longrightarrow>
            create_channel_series e name aids keywords description credential w =
              (Inl CredentialNoSessdataException, w)
          \<and> get_self_history e page_num per_page_item credential w =
              (Inl CredentialNoSessdataException, w)
          \<and> get_self_coins e credential w = (Inl CredentialNoSessdataException, w))
       \<and> del_channel_series e series_id c w = (Inl CredentialNoSessdataException, w)
       \<and> add_aids_to_series e series_id aids c w = (Inl CredentialNoSessdataException, w)
       \<and> del_aids_from_series e series_id aids c w = (Inl CredentialNoSessdataException, w)
       \<and> get_self_info e c w = (Inl CredentialNoSessdataException, w)
       \<and> edit_self_info e birthday sex uname usersign c w =
           (Inl CredentialNoSessdataException, w)
       \<and> create_subscribe_group e name c w = (Inl CredentialNoSessdataException, w)
       \<and> delete_subscribe_group e group_id c w = (Inl CredentialNoSessdataException, w)
       \<and> rename_subscribe_group e group_id new_name c w =
           (Inl CredentialNoSessdataException, w)
       \<and> set_subscribe_group e uids group_ids c w = (Inl CredentialNoSessdataException, w)
       \<and> get_toview_list e c w = (Inl CredentialNoSessdataException, w)
       \<and> clear_toview_list e c w = (Inl CredentialNoSessdataException, w)
       \<and> delete_viewed_videos_from_toview e c w = (Inl CredentialNoSessdataException, w)
       \<and> (0 < page_num \<and> 0 < page_size \<longrightarrow>
            get_self_notes_info e page_num page_size c w =
              (Inl CredentialNoSessdataException, w)
          \<and> get_self_public_notes_info e page_num page_size c w =
              (Inl CredentialNoSessdataException, w))
       \<and> (\<not> (0 < page_num \<and> 0 < page_size) \<longrightarrow>
            get_self_notes_info e page_num page_size c w = (Inl AssertionError, w)
          \<and> get_self_public_notes_info e page_num page_size c w = (Inl AssertionError, w))"
proof -
  have u: "user_credential self = c \<Longrightarrow> sessdata (user_credential self) = None"
    and o: "credential_or_default credential = c \<Longrightarrow>
              sessdata (credential_or_default credential) = None"
    using assms by simp_all
  show ?thesis
    using user_ops_need_sessdata [OF u] optional_credential_ops_need_sessdata [OF o]
      series_ops_need_sessdata [OF assms] self_ops_need_sessdata [OF assms]
      group_ops_need_sessdata [OF assms] notes_ops_need_sessdata [OF assms]
    by simp
qed

theorem session_token_checked_before_gateway_witness:
  "set_space_notice sample_env (User (JInt 5) None) ''hello'' [] =
     (Inl CredentialNoSessdataException, [])
   \<and> modify_relation sample_env (User (JInt 5) None) SUBSCRIBE [] =
     (Inl CredentialNoSessdataException, [])
   \<and> get_self_history sample_env 1 100 None [] = (Inl CredentialNoSessdataException, [])
   \<and> del_channel_series sample_env 3 Credential [] = (Inl CredentialNoSessdataException, [])
   \<and> get_self_info sample_env Credential [] = (Inl CredentialNoSessdataException, [])
   \<and> clear_toview_list sample_env Credential [] = (Inl CredentialNoSessdataException, [])
   \<and> get_self_notes_info sample_env 1 10 Credential [] =
     (Inl CredentialNoSessdataException, [])"
proof -
  have s: "sessdata Credential = None"
    by (simp add: Credential_def)
  from session_token_checked_before_gateway
    [OF s, where self = "User (JInt 5) None" and e = sample_env and content = "''hello''"
      and w = "[]" and relation = SUBSCRIBE and credential = None and page_num = 1
      and per_page_item = 100 and series_id = 3 and page_size = 10]
  show ?thesis
    by (simp add: User_def credential_or_default_def)
qed

text \<open>
  C1, as stated, fails for \<open>get_self_notes_info\<close>: called with page number 0 and a
  credential without session token, it raises the assertion failure, not the
  credential precondition error.
\<close>

theorem get_self_notes_info_asserts_first:
  "sessdata Credential = None
   \<and> get_self_notes_info sample_env 0 1 Credential [] = (Inl AssertionError, [])
   \<and> fst (get_self_notes_info sample_env 0 1 Credential []) \<noteq>
       Inl CredentialNoSessdataException"
  by (simp add: Credential_def get_self_notes_info_def io_lift_def)

end
